theory Spec2Isabelle
  imports Main
begin

section \<open>Python values used by the program\<close>

text \<open>
  A Python \<open>str\<close> is modelled as a \<open>string\<close> whose characters are the code points
  below 256. \<open>is_space\<close> is \<open>str.isspace\<close> on one such code point, \<open>strip\<close> is
  \<open>str.strip()\<close> without arguments, \<open>lower\<close> is \<open>str.lower()\<close>, and \<open>py_or\<close> is the
  expression \<open>s or d\<close> on strings (the empty string is the only false one).
\<close>

definition is_space :: "char \<Rightarrow> bool" where
  "is_space c =
     (let n = (of_char c :: nat)
      in (9 \<le> n \<and> n \<le> 13) \<or> (28 \<le> n \<and> n \<le> 32) \<or> n = 133 \<or> n = 160)"

definition strip :: "string \<Rightarrow> string" where
  "strip s = rev (dropWhile is_space (rev (dropWhile is_space s)))"

definition lower_char :: "char \<Rightarrow> char" where
  "lower_char c =
     (let n = (of_char c :: nat)
      in if (65 \<le> n \<and> n \<le> 90) \<or> (192 \<le> n \<and> n \<le> 222 \<and> n \<noteq> 215)
         then char_of (n + 32) else c)"

definition lower :: "string \<Rightarrow> string" where
  "lower s = map lower_char s"

definition py_or :: "string \<Rightarrow> string \<Rightarrow> string" where
  "py_or s d = (if s = [] then d else s)"

text \<open>Splitting at runs of whitespace, as the parser does with a \<open>class\<close> attribute.\<close>

fun split_acc :: "string \<Rightarrow> string \<Rightarrow> string list" where
  "split_acc cur [] = (if cur = [] then [] else [cur])"
| "split_acc cur (c # cs) =
     (if is_space c then (if cur = [] then [] else [cur]) @ split_acc [] cs
      else split_acc (cur @ [c]) cs)"

definition split_ws :: "string \<Rightarrow> string list" where
  "split_ws s = split_acc [] s"

text \<open>
  The slice \<open>xs[start:stop]\<close> of Python, step 1: a negative index counts from the end,
  and both indices are clamped to the list.
\<close>

definition clamp_index :: "int \<Rightarrow> int \<Rightarrow> int" where
  "clamp_index n i = (if i < 0 then max 0 (i + n) else min i n)"

definition py_slice :: "'a list \<Rightarrow> int \<Rightarrow> int \<Rightarrow> 'a list" where
  "py_slice xs start stop =
     (let n = int (length xs); lo = clamp_index n start; hi = clamp_index n stop
      in if lo < hi then take (nat (hi - lo)) (drop (nat lo) xs) else [])"

text \<open>The values stored in an announcement: a string, \<open>None\<close>, or a list of strings.\<close>

datatype pyval = PyStr string | PyNone | PyList "string list"

text \<open>An announcement is a \<open>dict\<close> literal: its keys in the order written, with their values.\<close>

type_synonym announcement = "(string \<times> pyval) list"

section \<open>Exceptions\<close>

text \<open>
  \<open>ConnectionError\<close>, \<open>Timeout\<close> and \<open>HTTPError\<close> are the exceptions of the HTTP client,
  all subclasses of its \<open>RequestException\<close>. \<open>HTTPException\<close> is the web framework's
  exception, carrying \<open>status_code\<close> and \<open>detail\<close>; it is a subclass of \<open>Exception\<close> and
  not of \<open>RequestException\<close>. \<open>ValueError\<close> is what \<open>urljoin\<close> raises on a reference it
  cannot split, such as \<open>http://[\<close>; it is a subclass of \<open>Exception\<close> and not of
  \<open>RequestException\<close> either.
\<close>

datatype exn =
  ConnectionError | Timeout | HTTPError nat | HTTPException nat string | ValueError

fun is_RequestException :: "exn \<Rightarrow> bool" where
  "is_RequestException ConnectionError = True"
| "is_RequestException Timeout = True"
| "is_RequestException (HTTPError code) = True"
| "is_RequestException (HTTPException code detail) = False"
| "is_RequestException ValueError = False"

fun is_Exception :: "exn \<Rightarrow> bool" where
  "is_Exception ConnectionError = True"
| "is_Exception Timeout = True"
| "is_Exception (HTTPError code) = True"
| "is_Exception (HTTPException code detail) = True"
| "is_Exception ValueError = True"

section \<open>Effects: the requests sent so far\<close>

text \<open>
  A computation takes the list of URLs requested so far and returns either the exception
  it raised or its value, with the list as it is afterwards. Logging is left out: it
  changes no result.
\<close>

type_synonym 'a io = "string list \<Rightarrow> (exn + 'a) \<times> string list"

definition io_return :: "'a \<Rightarrow> 'a io" where
  "io_return v tr = (Inr v, tr)"

definition io_raise :: "exn \<Rightarrow> 'a io" where
  "io_raise e tr = (Inl e, tr)"

text \<open>A computation that sends nothing: it only returns or raises.\<close>

definition io_lift :: "exn + 'a \<Rightarrow> 'a io" where
  "io_lift r tr = (r, tr)"

definition io_bind :: "'a io \<Rightarrow> ('a \<Rightarrow> 'b io) \<Rightarrow> 'b io" where
  "io_bind m f tr = (case m tr of (Inl e, tr') \<Rightarrow> (Inl e, tr') | (Inr v, tr') \<Rightarrow> f v tr')"

text \<open>\<open>try: m except C as e: h e\<close>, where \<open>catches\<close> tells the instances of the class \<open>C\<close>.\<close>

definition io_try :: "'a io \<Rightarrow> (exn \<Rightarrow> bool) \<Rightarrow> (exn \<Rightarrow> 'a io) \<Rightarrow> 'a io" where
  "io_try m catches h tr =
     (case m tr of
        (Inl e, tr') \<Rightarrow> if catches e then h e tr' else (Inl e, tr')
      | (Inr v, tr') \<Rightarrow> (Inr v, tr'))"

section \<open>The outside world\<close>

text \<open>
  The remote sites, the HTML parser and \<open>urljoin\<close> are not part of the program: they are
  the fields of a \<open>world\<close>. A GET either fails to connect, times out, or is answered with
  a status code and a body. \<open>urljoin\<close> gives the joined URL, or nothing where the library
  function raises \<open>ValueError\<close>.
\<close>

record response =
  status_code :: nat
  content :: string

datatype net_outcome = ConnectionFailed | TimedOut | Responded response

datatype node =
    NavigableString string
  | Tag (name: string) (attrs: "(string \<times> string) list") (contents: "node list")
where
  "name (NavigableString s) = []"
| "attrs (NavigableString s) = []"
| "contents (NavigableString s) = []"

record world =
  http_get :: "string \<Rightarrow> net_outcome"
  html_parser :: "string \<Rightarrow> node list"
  urljoin :: "string \<Rightarrow> string \<Rightarrow> string option"

text \<open>\<open>urljoin(base, href)\<close> as the program calls it: it returns the URL or raises.\<close>

definition py_urljoin :: "world \<Rightarrow> string \<Rightarrow> string \<Rightarrow> exn + string" where
  "py_urljoin w base href =
     (case urljoin w base href of None \<Rightarrow> Inl ValueError | Some link \<Rightarrow> Inr link)"

text \<open>\<open>requests.get(url, timeout=10)\<close>: the request is recorded, then answered or failed.\<close>

definition requests_get :: "world \<Rightarrow> string \<Rightarrow> response io" where
  "requests_get w url tr =
     (case http_get w url of
        ConnectionFailed \<Rightarrow> (Inl ConnectionError, tr @ [url])
      | TimedOut \<Rightarrow> (Inl Timeout, tr @ [url])
      | Responded r \<Rightarrow> (Inr r, tr @ [url]))"

text \<open>\<open>response.raise_for_status()\<close> raises \<open>HTTPError\<close> on a status from 400 to 599.\<close>

definition raise_for_status :: "response \<Rightarrow> unit io" where
  "raise_for_status r =
     (if 400 \<le> status_code r \<and> status_code r < 600
      then io_raise (HTTPError (status_code r)) else io_return ())"

section \<open>The document tree\<close>

text \<open>
  \<open>walk\<close> lists the nodes below a list of siblings in document order, each with the
  siblings that follow it. \<open>get_text\<close> is the attribute \<open>.text\<close>.
\<close>

fun walk :: "node list \<Rightarrow> (node \<times> node list) list" where
  "walk [] = []"
| "walk (NavigableString s # rest) = (NavigableString s, rest) # walk rest"
| "walk (Tag n a cs # rest) = (Tag n a cs, rest) # walk cs @ walk rest"

definition descendants :: "node list \<Rightarrow> node list" where
  "descendants ns = map fst (walk ns)"

fun get_text :: "node \<Rightarrow> string" where
  "get_text (NavigableString s) = s"
| "get_text (Tag n a cs) = concat (map get_text cs)"

fun is_tag :: "node \<Rightarrow> bool" where
  "is_tag (NavigableString s) = False"
| "is_tag (Tag n a cs) = True"

definition named :: "string \<Rightarrow> node \<Rightarrow> bool" where
  "named nm e = (is_tag e \<and> name e = nm)"

definition has_class :: "string \<Rightarrow> node \<Rightarrow> bool" where
  "has_class c e =
     (is_tag e \<and> (case map_of (attrs e) ''class'' of
                    None \<Rightarrow> False
                  | Some v \<Rightarrow> c \<in> set (split_ws v)))"

definition has_id :: "string \<Rightarrow> node \<Rightarrow> bool" where
  "has_id i e = (is_tag e \<and> map_of (attrs e) ''id'' = Some i)"

text \<open>\<open>e.find_all(...)\<close> and \<open>e.find(...)\<close> search below \<open>e\<close>, here below the nodes \<open>ns\<close>.\<close>

definition find_all :: "(node \<Rightarrow> bool) \<Rightarrow> node list \<Rightarrow> node list" where
  "find_all p ns = filter p (descendants ns)"

definition find_first :: "(node \<Rightarrow> bool) \<Rightarrow> node list \<Rightarrow> node option" where
  "find_first p ns = List.find p (descendants ns)"

text \<open>\<open>e.find_all(nm, recursive=False)\<close>: the children only.\<close>

definition find_children :: "(node \<Rightarrow> bool) \<Rightarrow> node list \<Rightarrow> node list" where
  "find_children p ns = filter p ns"

text \<open>\<open>e.find_next_sibling()\<close>: the first element among the siblings after \<open>e\<close>.\<close>

definition find_next_sibling :: "node list \<Rightarrow> node option" where
  "find_next_sibling sibs = List.find is_tag sibs"

text \<open>\<open>e.get(k)\<close>: the value of the attribute \<open>k\<close>, or \<open>None\<close>. As a condition it holds
  when the value is there and is not the empty string.\<close>

definition get_attr :: "node \<Rightarrow> string \<Rightarrow> string option" where
  "get_attr e k = map_of (attrs e) k"

text \<open>
  A CSS selector made of simple selectors joined by the descendant combinator.
  \<open>select\<close> returns, in document order, the elements that match the last simple
  selector and have ancestors matching the earlier ones, outermost first.
\<close>

datatype simple_selector = ById string | ByClass string | ByType string

fun matches :: "simple_selector \<Rightarrow> node \<Rightarrow> bool" where
  "matches (ById i) e = has_id i e"
| "matches (ByClass c) e = has_class c e"
| "matches (ByType nm) e = named nm e"

fun select :: "simple_selector list \<Rightarrow> node list \<Rightarrow> node list" where
  "select sels [] = []"
| "select sels (NavigableString s # rest) = select sels rest"
| "select [] (Tag n a cs # rest) = []"
| "select [s] (Tag n a cs # rest) =
     (if matches s (Tag n a cs) then [Tag n a cs] else []) @ select [s] cs @ select [s] rest"
| "select (s # s' # ss) (Tag n a cs # rest) =
     (if matches s (Tag n a cs) then select (s' # ss) cs else select (s # s' # ss) cs)
     @ select (s # s' # ss) rest"

section \<open>The extractors\<close>

text \<open>
  Each extractor requests its fixed URL inside \<open>try\<close>; \<open>except RequestException\<close> returns
  the empty list from the function. The page is then parsed and searched, outside the
  \<open>try\<close>. The body of the loop over the items is a function of its own; it returns the
  record it appends, or the exception it raises. \<open>collect\<close> is the loop: it appends the
  records in order and stops at the first exception, which leaves the extractor.
\<close>

fun collect :: "('a \<Rightarrow> exn + 'b) \<Rightarrow> 'a list \<Rightarrow> exn + 'b list" where
  "collect f [] = Inr []"
| "collect f (x # xs) =
     (case f x of
        Inl e \<Rightarrow> Inl e
      | Inr y \<Rightarrow> (case collect f xs of Inl e \<Rightarrow> Inl e | Inr ys \<Rightarrow> Inr (y # ys)))"

text \<open>Lines 34 to 51: one \<open>li\<close> of the Bangalore list.\<close>

definition bangalore_item :: "world \<Rightarrow> string \<Rightarrow> node \<Rightarrow> exn + announcement" where
  "bangalore_item w url item =
     (let link_tag = find_first (named ''a'') (contents item)
      in case link_tag of
           None \<Rightarrow>
             Inr [(''university'', PyStr ''Bangalore''),
                  (''title'', PyStr (py_or (strip (get_text item)) ''Untitled'')),
                  (''description'', PyNone),
                  (''link'', PyNone)]
         | Some a \<Rightarrow>
             (case get_attr a ''href'' of
                None \<Rightarrow>
                  Inr [(''university'', PyStr ''Bangalore''),
                       (''title'', PyStr (py_or (strip (get_text item)) ''Untitled'')),
                       (''description'', PyNone),
                       (''link'', PyNone)]
              | Some href \<Rightarrow>
                  if href \<noteq> []
                  then (let title = py_or (strip (get_text a)) ''Untitled''
                        in case py_urljoin w url href of
                             Inl e \<Rightarrow> Inl e
                           | Inr link \<Rightarrow>
                               Inr [(''university'', PyStr ''Bangalore''),
                                    (''title'', PyStr title),
                                    (''description'', PyNone),
                                    (''link'', PyStr link)])
                  else Inr [(''university'', PyStr ''Bangalore''),
                            (''title'', PyStr (py_or (strip (get_text item)) ''Untitled'')),
                            (''description'', PyNone),
                            (''link'', PyNone)]))"

definition scrape_bangalore_notifications :: "world \<Rightarrow> announcement list io" where
  "scrape_bangalore_notifications w =
     (let url = ''https://bangaloreuniversity.karnataka.gov.in/notifications''
      in io_bind
           (io_try
              (io_bind (requests_get w url) (\<lambda>response.
               io_bind (raise_for_status response) (\<lambda>_.
               io_return (Some response))))
              is_RequestException
              (\<lambda>e. io_return None))
           (\<lambda>fetched.
              case fetched of
                None \<Rightarrow> io_return []
              | Some response \<Rightarrow>
                  (let soup = html_parser w (content response)
                   in case find_first (\<lambda>e. named ''div'' e \<and> has_class ''container'' e) soup of
                        None \<Rightarrow> io_return []
                      | Some container \<Rightarrow>
                          (case find_first (named ''ul'') (contents container) of
                             None \<Rightarrow> io_return []
                           | Some unordered_list \<Rightarrow>
                               io_lift
                                 (collect (bangalore_item w url)
                                    (find_children (named ''li'') (contents unordered_list)))))))"

text \<open>Lines 71 to 82: one \<open>h4\<close> of the Goa page, given with the siblings that follow it.\<close>

definition goa_item :: "node \<times> node list \<Rightarrow> announcement" where
  "goa_item located =
     (case located of (h4, following) \<Rightarrow>
        (let title = py_or (strip (get_text h4)) ''Untitled'';
             next_element = find_next_sibling following;
             details =
               (case next_element of
                  None \<Rightarrow> []
                | Some e \<Rightarrow>
                    if name e = ''ul''
                    then map (\<lambda>li. strip (get_text li)) (find_all (named ''li'') (contents e))
                    else [])
         in [(''university'', PyStr ''Goa''),
             (''title'', PyStr title),
             (''details'', PyList details)]))"

definition scrape_goa_notifications :: "world \<Rightarrow> announcement list io" where
  "scrape_goa_notifications w =
     (let url = ''https://www.unigoa.ac.in/systems/c/admissions/announcementsnotices.html''
      in io_bind
           (io_try
              (io_bind (requests_get w url) (\<lambda>response.
               io_bind (raise_for_status response) (\<lambda>_.
               io_return (Some response))))
              is_RequestException
              (\<lambda>e. io_return None))
           (\<lambda>fetched.
              case fetched of
                None \<Rightarrow> io_return []
              | Some response \<Rightarrow>
                  (let soup = html_parser w (content response)
                   in case find_first (\<lambda>e. named ''div'' e \<and> has_class ''details1'' e) soup of
                        None \<Rightarrow> io_return []
                      | Some inside_wrapper \<Rightarrow>
                          (case find_first (\<lambda>e. named ''div'' e \<and> has_class ''details1_left'' e)
                                  (contents inside_wrapper) of
                             None \<Rightarrow> io_return []
                           | Some details1_left \<Rightarrow>
                               io_return
                                 (map goa_item
                                    (filter (\<lambda>located. named ''h4'' (fst located))
                                       (walk (contents details1_left))))))))"

text \<open>Lines 99 to 114: one \<open>li\<close> selected on the Mumbai page.\<close>

definition mumbai_item :: "world \<Rightarrow> string \<Rightarrow> node \<Rightarrow> exn + announcement" where
  "mumbai_item w url li =
     (let a_tag = find_first (named ''a'') (contents li)
      in case a_tag of
           None \<Rightarrow>
             Inr [(''university'', PyStr ''Mumbai''),
                  (''title'', PyStr (py_or (strip (get_text li)) ''Untitled'')),
                  (''link'', PyNone)]
         | Some a \<Rightarrow>
             (case get_attr a ''href'' of
                None \<Rightarrow>
                  Inr [(''university'', PyStr ''Mumbai''),
                       (''title'', PyStr (py_or (strip (get_text li)) ''Untitled'')),
                       (''link'', PyNone)]
              | Some href \<Rightarrow>
                  if href \<noteq> []
                  then (let title = py_or (strip (get_text a)) ''Untitled''
                        in case py_urljoin w url href of
                             Inl e \<Rightarrow> Inl e
                           | Inr link \<Rightarrow>
                               Inr [(''university'', PyStr ''Mumbai''),
                                    (''title'', PyStr title),
                                    (''link'', PyStr link)])
                  else Inr [(''university'', PyStr ''Mumbai''),
                            (''title'', PyStr (py_or (strip (get_text li)) ''Untitled'')),
                            (''link'', PyNone)]))"

definition scrape_mumbai_notifications :: "world \<Rightarrow> announcement list io" where
  "scrape_mumbai_notifications w =
     (let url = ''https://mu.ac.in/department-announcements''
      in io_bind
           (io_try
              (io_bind (requests_get w url) (\<lambda>response.
               io_bind (raise_for_status response) (\<lambda>_.
               io_return (Some response))))
              is_RequestException
              (\<lambda>e. io_return None))
           (\<lambda>fetched.
              case fetched of
                None \<Rightarrow> io_return []
              | Some response \<Rightarrow>
                  (let soup = html_parser w (content response);
                       list_items =
                         select [ById ''main'', ByClass ''entry-content'',
                                 ByClass ''wpb_text_column'', ByType ''ul'', ByType ''li''] soup
                   in io_lift (collect (mumbai_item w url) list_items))))"

section \<open>The request handlers\<close>

text \<open>
  The body returned by the two announcement endpoints. The router checks \<open>limit \<ge> 1\<close> and
  \<open>offset \<ge> 0\<close> before it calls a handler. A handler that raises \<open>HTTPException\<close> is
  answered with that exception's status code.
\<close>

record listing =
  resp_data :: "announcement list"
  resp_total :: int
  resp_limit :: int
  resp_offset :: int

definition get_all_announcements :: "world \<Rightarrow> int \<Rightarrow> int \<Rightarrow> listing io" where
  "get_all_announcements w limit offset =
     io_try
       (io_bind (scrape_bangalore_notifications w) (\<lambda>bangalore.
        io_bind (scrape_goa_notifications w) (\<lambda>goa.
        io_bind (scrape_mumbai_notifications w) (\<lambda>mumbai.
          (let all_announcements = bangalore @ goa @ mumbai
           in if all_announcements = []
              then io_raise (HTTPException 404 ''No announcements found'')
              else io_return
                     \<lparr>resp_data = py_slice all_announcements offset (offset + limit),
                      resp_total = int (length all_announcements),
                      resp_limit = limit,
                      resp_offset = offset\<rparr>)))))
       is_Exception
       (\<lambda>e. io_raise (HTTPException 500 ''Internal server error''))"

definition scrapers :: "string \<rightharpoonup> (world \<Rightarrow> announcement list io)" where
  "scrapers =
     [''bangalore'' \<mapsto> scrape_bangalore_notifications,
      ''goa'' \<mapsto> scrape_goa_notifications,
      ''mumbai'' \<mapsto> scrape_mumbai_notifications]"

definition get_university_announcements ::
    "world \<Rightarrow> string \<Rightarrow> int \<Rightarrow> int \<Rightarrow> listing io" where
  "get_university_announcements w university limit offset =
     (let university_key = lower university
      in case scrapers university_key of
           None \<Rightarrow>
             io_raise (HTTPException 404
               (''University '' @ [CHR 0x27] @ university @ [CHR 0x27] @ '' not found''))
         | Some scraper \<Rightarrow>
             io_try
               (io_bind (scraper w) (\<lambda>announcements.
                  if announcements = []
                  then io_raise (HTTPException 404
                         (''No announcements found for '' @ university))
                  else io_return
                         \<lparr>resp_data = py_slice announcements offset (offset + limit),
                          resp_total = int (length announcements),
                          resp_limit = limit,
                          resp_offset = offset\<rparr>))
               is_Exception
               (\<lambda>e. io_raise (HTTPException 500 ''Internal server error'')))"

section \<open>Fixed URLs and sample worlds\<close>

text \<open>
  The three URLs, and worlds on which the program is run below: one where every request
  has the same outcome and nothing parses, and one that answers every request with a
  given status code and a small page for each site (its links are absolute, so that
  \<open>urljoin\<close> returns them as they are), and one whose Bangalore page has a link that
  \<open>urljoin\<close> cannot split.
\<close>

abbreviation bangalore_url :: string where
  "bangalore_url \<equiv> ''https://bangaloreuniversity.karnataka.gov.in/notifications''"

abbreviation goa_url :: string where
  "goa_url \<equiv> ''https://www.unigoa.ac.in/systems/c/admissions/announcementsnotices.html''"

abbreviation mumbai_url :: string where
  "mumbai_url \<equiv> ''https://mu.ac.in/department-announcements''"

definition failing_world :: "net_outcome \<Rightarrow> world" where
  "failing_world out =
     \<lparr>http_get = (\<lambda>url. out), html_parser = (\<lambda>body. []), urljoin = (\<lambda>base href. Some href)\<rparr>"

definition bangalore_page :: "node list" where
  "bangalore_page =
     [Tag ''div'' [(''class'', ''row container'')]
        [Tag ''ul'' []
           [Tag ''li'' []
              [Tag ''a'' [(''href'', ''https://example.org/n1.pdf'')]
                 [NavigableString '' Admission notice '']],
            Tag ''li'' [] [NavigableString ''  ''],
            Tag ''li'' []
              [NavigableString ''See '',
               Tag ''a'' [(''name'', ''top'')] [NavigableString ''here'']]]]]"

definition goa_page :: "node list" where
  "goa_page =
     [Tag ''div'' [(''class'', ''details1'')]
        [Tag ''div'' [(''class'', ''details1_left'')]
           [Tag ''h4'' [] [NavigableString ''PhD admissions''],
            NavigableString '' '',
            Tag ''ul'' []
              [Tag ''li'' [] [NavigableString '' Apply by May ''],
               Tag ''li'' [] [NavigableString ''Fee'']],
            Tag ''h4'' [] [],
            Tag ''p'' [] [NavigableString ''Soon'']]]]"

definition mumbai_page :: "node list" where
  "mumbai_page =
     [Tag ''div'' [(''id'', ''main'')]
        [Tag ''div'' [(''class'', ''entry-content'')]
           [Tag ''div'' [(''class'', ''wpb_text_column'')]
              [Tag ''ul'' []
                 [Tag ''li'' []
                    [Tag ''a'' [(''href'', ''https://example.org/c.pdf'')]
                       [NavigableString ''Circular'']]]]]]]"

definition static_world :: "nat \<Rightarrow> world" where
  "static_world code =
     \<lparr>http_get = (\<lambda>url. Responded \<lparr>status_code = code,
                     content = (if url = bangalore_url then ''B''
                                else if url = goa_url then ''G'' else ''M'')\<rparr>),
      html_parser = (\<lambda>body. if body = ''B'' then bangalore_page
                            else if body = ''G'' then goa_page else mumbai_page),
      urljoin = (\<lambda>base href. Some href)\<rparr>"

definition unsplittable_href :: node where
  "unsplittable_href =
     Tag ''li'' [] [Tag ''a'' [(''href'', ''http://['')] [NavigableString ''Prospectus'']]"

definition strict_world :: world where
  "strict_world =
     \<lparr>http_get = (\<lambda>url. Responded \<lparr>status_code = 200, content = []\<rparr>),
      html_parser = (\<lambda>body. [Tag ''div'' [(''class'', ''container'')]
                               [Tag ''ul'' [] [unsplittable_href]]]),
      urljoin = (\<lambda>base href. if href = ''http://['' then None else Some href)\<rparr>"

definition link_without_href :: node where
  "link_without_href =
     Tag ''li'' []
       [NavigableString ''See '', Tag ''a'' [(''name'', ''top'')] [NavigableString ''here'']]"

section \<open>Pagination\<close>

text \<open>With the indices the router lets through, the slice is a \<open>take\<close> of a \<open>drop\<close>.\<close>

lemma py_slice_window:
  assumes "0 \<le> offset" and "0 \<le> limit"
  shows "py_slice xs offset (offset + limit) = take (nat limit) (drop (nat offset) xs)"
proof (cases "offset < int (length xs)")
  case True
  show ?thesis
  proof (cases "offset + limit \<le> int (length xs)")
    case True
    with assms \<open>offset < int (length xs)\<close> show ?thesis
      by (cases "limit = 0") (simp_all add: py_slice_def clamp_index_def Let_def min_def)
  next
    case False
    with assms \<open>offset < int (length xs)\<close> show ?thesis
      by (simp add: py_slice_def clamp_index_def Let_def min_def nat_diff_distrib)
  qed
next
  case False
  with assms show ?thesis
    by (simp add: py_slice_def clamp_index_def Let_def min_def)
qed

lemma py_slice_past_end:
  assumes "0 \<le> limit" and "int (length xs) \<le> offset"
  shows "py_slice xs offset (offset + limit) = []"
proof -
  from assms have "0 \<le> offset" by simp
  with assms show ?thesis by (simp add: py_slice_window)
qed

lemma py_slice_whole: "py_slice xs 0 (0 + int (length xs)) = xs"
  using py_slice_window [of 0 "int (length xs)" xs] by simp

lemma concat_windows:
  "concat (map (\<lambda>k. take n (drop (k * n) xs)) [0..<m]) = take (m * n) xs"
proof (induction m)
  case 0
  show ?case by simp
next
  case (Suc m)
  have "Suc m * n = m * n + n" by simp
  then have "take (Suc m * n) xs = take (m * n) xs @ take n (drop (m * n) xs)"
    by (simp only: take_add)
  with Suc show ?case by simp
qed

text \<open>
  Claim C2. For every list \<open>S\<close>, every limit of at least 1 and every offset of at least 0,
  the slice \<open>S[offset : offset + limit]\<close> has length \<open>min(limit, max(0, len(S) - offset))\<close>,
  and the slices taken at the offsets 0, limit, 2 limit, ..., once they cover the list,
  concatenate to \<open>S\<close>.
\<close>

theorem C2_pagination_slices:
  assumes "1 \<le> limit" and "0 \<le> offset"
  shows "int (length (py_slice S offset (offset + limit)))
           = min limit (max 0 (int (length S) - offset))
       \<and> (\<forall>m. int (length S) \<le> int m * limit \<longrightarrow>
            concat (map (\<lambda>k. py_slice S (int k * limit) (int k * limit + limit)) [0..<m]) = S)"
proof
  from assms show "int (length (py_slice S offset (offset + limit)))
           = min limit (max 0 (int (length S) - offset))"
    by (simp add: py_slice_window)
next
  show "\<forall>m. int (length S) \<le> int m * limit \<longrightarrow>
            concat (map (\<lambda>k. py_slice S (int k * limit) (int k * limit + limit)) [0..<m]) = S"
  proof (intro allI impI)
    fix m assume cover: "int (length S) \<le> int m * limit"
    have window: "py_slice S (int k * limit) (int k * limit + limit)
            = take (nat limit) (drop (k * nat limit) S)" for k
    proof -
      have "0 \<le> int k * limit" using assms by simp
      then have "py_slice S (int k * limit) (int k * limit + limit)
                   = take (nat limit) (drop (nat (int k * limit)) S)"
        using assms by (simp add: py_slice_window)
      moreover have "nat (int k * limit) = k * nat limit"
        using assms by (simp add: nat_mult_distrib)
      ultimately show ?thesis by simp
    qed
    have "concat (map (\<lambda>k. py_slice S (int k * limit) (int k * limit + limit)) [0..<m])
                 = take (m * nat limit) S"
      by (simp add: window concat_windows)
    moreover have "length S \<le> m * nat limit"
    proof -
      have "int (length S) \<le> int (m * nat limit)" using cover assms by simp
      then show ?thesis by linarith
    qed
    ultimately show
      "concat (map (\<lambda>k. py_slice S (int k * limit) (int k * limit + limit)) [0..<m]) = S"
      by simp
  qed
qed

theorem C2_pagination_slices_witness:
  "(1::int) \<le> 2 \<and> (0::int) \<le> 1
   \<and> py_slice [10, 20, 30 :: nat] 1 (1 + 2) = [20, 30]
   \<and> int (length (py_slice [10, 20, 30 :: nat] 1 (1 + 2)))
       = min 2 (max 0 (int (length [10, 20, 30 :: nat]) - 1))
   \<and> concat (map (\<lambda>k. py_slice [10, 20, 30 :: nat] (int k * 2) (int k * 2 + 2)) [0..<2])
       = [10, 20, 30]"
proof -
  have a: "(1::int) \<le> 2" and b: "(0::int) \<le> 1" by simp_all
  have c: "int (length [10, 20, 30 :: nat]) \<le> int 2 * 2" by simp
  have d: "py_slice [10, 20, 30 :: nat] 1 (1 + 2) = [20, 30]"
    by (simp add: py_slice_def clamp_index_def)
  from C2_pagination_slices [OF a b, of "[10, 20, 30 :: nat]"] c d show ?thesis
    by simp
qed
section \<open>What the extractors and the handlers compute\<close>

text \<open>
  The \<open>try\<close> block of an extractor always returns: with no response after a failed
  connection, a timeout or a status from 400 to 599, with the response otherwise. The
  request is recorded in either case.
\<close>

lemma try_fetch:
  "io_try
     (io_bind (requests_get w url) (\<lambda>response.
      io_bind (raise_for_status response) (\<lambda>_.
      io_return (Some response))))
     is_RequestException
     (\<lambda>e. io_return None) tr
   = (Inr (case http_get w url of
             ConnectionFailed \<Rightarrow> None
           | TimedOut \<Rightarrow> None
           | Responded r \<Rightarrow>
               if 400 \<le> status_code r \<and> status_code r < 600 then None else Some r),
      tr @ [url])"
  by (simp add: io_try_def io_bind_def requests_get_def raise_for_status_def
        io_return_def io_raise_def split: net_outcome.split)

lemma collect_records:
  "collect f xs = Inr ys \<Longrightarrow> \<forall>y \<in> set ys. \<exists>x \<in> set xs. f x = Inr y"
proof (induction xs arbitrary: ys)
  case Nil
  then show ?case by simp
next
  case (Cons x xs)
  from Cons.prems obtain y rest
    where head: "f x = Inr y" and tail: "collect f xs = Inr rest" and ys: "ys = y # rest"
    by (auto split: sum.splits)
  from Cons.IH [OF tail] have "\<forall>z \<in> set rest. \<exists>x' \<in> set xs. f x' = Inr z" .
  with head ys show ?case by auto
qed

lemma scrape_goa_total:
  "\<exists>items. scrape_goa_notifications w tr = (Inr (map goa_item items), tr @ [goa_url])"
  unfolding scrape_goa_notifications_def Let_def io_bind_def try_fetch
  by (auto simp add: io_return_def split: net_outcome.splits option.splits)

lemma scrape_bangalore_answered:
  "scrape_bangalore_notifications w tr =
     ((case http_get w bangalore_url of
         ConnectionFailed \<Rightarrow> Inr []
       | TimedOut \<Rightarrow> Inr []
       | Responded r \<Rightarrow>
           if 400 \<le> status_code r \<and> status_code r < 600 then Inr []
           else (case find_first (\<lambda>e. named ''div'' e \<and> has_class ''container'' e)
                        (html_parser w (content r)) of
                   None \<Rightarrow> Inr []
                 | Some container \<Rightarrow>
                     (case find_first (named ''ul'') (contents container) of
                        None \<Rightarrow> Inr []
                      | Some unordered_list \<Rightarrow>
                          collect (bangalore_item w bangalore_url)
                            (find_children (named ''li'') (contents unordered_list))))),
      tr @ [bangalore_url])"
  unfolding scrape_bangalore_notifications_def Let_def io_bind_def try_fetch
  by (simp add: io_return_def io_lift_def split: net_outcome.splits option.splits)

lemma scrape_goa_answered:
  "scrape_goa_notifications w tr =
     (Inr (case http_get w goa_url of
             ConnectionFailed \<Rightarrow> []
           | TimedOut \<Rightarrow> []
           | Responded r \<Rightarrow>
               if 400 \<le> status_code r \<and> status_code r < 600 then []
               else (case find_first (\<lambda>e. named ''div'' e \<and> has_class ''details1'' e)
                            (html_parser w (content r)) of
                       None \<Rightarrow> []
                     | Some inside_wrapper \<Rightarrow>
                         (case find_first (\<lambda>e. named ''div'' e \<and> has_class ''details1_left'' e)
                                 (contents inside_wrapper) of
                            None \<Rightarrow> []
                          | Some details1_left \<Rightarrow>
                              map goa_item
                                (filter (\<lambda>located. named ''h4'' (fst located))
                                   (walk (contents details1_left)))))),
      tr @ [goa_url])"
  unfolding scrape_goa_notifications_def Let_def io_bind_def try_fetch
  by (simp add: io_return_def split: net_outcome.splits option.splits)

lemma scrape_mumbai_answered:
  "scrape_mumbai_notifications w tr =
     ((case http_get w mumbai_url of
         ConnectionFailed \<Rightarrow> Inr []
       | TimedOut \<Rightarrow> Inr []
       | Responded r \<Rightarrow>
           if 400 \<le> status_code r \<and> status_code r < 600 then Inr []
           else collect (mumbai_item w mumbai_url)
                  (select [ById ''main'', ByClass ''entry-content'',
                           ByClass ''wpb_text_column'', ByType ''ul'', ByType ''li'']
                     (html_parser w (content r)))),
      tr @ [mumbai_url])"
  unfolding scrape_mumbai_notifications_def Let_def io_bind_def try_fetch
  by (simp add: io_return_def io_lift_def split: net_outcome.splits option.splits)

text \<open>
  Every extractor sends exactly its one request, and every record it returns was built
  from one item of the loop.
\<close>

lemma scrape_requests:
  "snd (scrape_bangalore_notifications w tr) = tr @ [bangalore_url]"
  "snd (scrape_goa_notifications w tr) = tr @ [goa_url]"
  "snd (scrape_mumbai_notifications w tr) = tr @ [mumbai_url]"
  by (simp_all add: scrape_bangalore_answered scrape_goa_answered scrape_mumbai_answered)

lemma scrape_bangalore_items:
  assumes "scrape_bangalore_notifications w tr = (Inr xs, tr1)"
  shows "\<forall>r \<in> set xs. \<exists>item. bangalore_item w bangalore_url item = Inr r"
proof -
  from assms obtain items
    where "xs = [] \<or> collect (bangalore_item w bangalore_url) items = Inr xs"
    by (auto simp add: scrape_bangalore_answered
          split: net_outcome.splits option.splits if_splits)
  then show ?thesis
  proof
    assume "xs = []" then show ?thesis by simp
  next
    assume "collect (bangalore_item w bangalore_url) items = Inr xs"
    from collect_records [OF this] show ?thesis by blast
  qed
qed

lemma scrape_mumbai_items:
  assumes "scrape_mumbai_notifications w tr = (Inr zs, tr3)"
  shows "\<forall>r \<in> set zs. \<exists>item. mumbai_item w mumbai_url item = Inr r"
proof -
  from assms obtain items
    where "zs = [] \<or> collect (mumbai_item w mumbai_url) items = Inr zs"
    by (auto simp add: scrape_mumbai_answered
          split: net_outcome.splits option.splits if_splits)
  then show ?thesis
  proof
    assume "zs = []" then show ?thesis by simp
  next
    assume "collect (mumbai_item w mumbai_url) items = Inr zs"
    from collect_records [OF this] show ?thesis by blast
  qed
qed

lemma get_all_announcements_run:
  assumes "scrape_bangalore_notifications w tr = (Inr B, tr1)"
      and "scrape_goa_notifications w tr1 = (Inr G, tr2)"
      and "scrape_mumbai_notifications w tr2 = (Inr M, tr3)"
  shows "get_all_announcements w limit offset tr =
           (if B @ G @ M = []
            then (Inl (HTTPException 500 ''Internal server error''), tr3)
            else (Inr \<lparr>resp_data = py_slice (B @ G @ M) offset (offset + limit),
                       resp_total = int (length (B @ G @ M)),
                       resp_limit = limit,
                       resp_offset = offset\<rparr>, tr3))"
  using assms
  by (simp add: get_all_announcements_def io_try_def io_bind_def io_raise_def io_return_def
        Let_def)

lemma get_university_announcements_run:
  assumes "scrapers (lower university) = Some scraper"
      and "scraper w tr = (Inr S, tr')"
  shows "get_university_announcements w university limit offset tr =
           (if S = []
            then (Inl (HTTPException 500 ''Internal server error''), tr')
            else (Inr \<lparr>resp_data = py_slice S offset (offset + limit),
                       resp_total = int (length S),
                       resp_limit = limit,
                       resp_offset = offset\<rparr>, tr'))"
  using assms
  by (simp add: get_university_announcements_def io_try_def io_bind_def io_raise_def
        io_return_def Let_def)

lemma get_university_announcements_unknown:
  assumes "scrapers (lower university) = None"
  shows "get_university_announcements w university limit offset tr =
           (Inl (HTTPException 404
                   (''University '' @ [CHR 0x27] @ university @ [CHR 0x27] @ '' not found'')),
            tr)"
  using assms
  by (simp add: get_university_announcements_def io_raise_def Let_def)

lemma scrapers_dom:
  "scrapers k = None \<longleftrightarrow> k \<notin> {''bangalore'', ''goa'', ''mumbai''}"
  by (simp add: scrapers_def)

lemma lower_keys:
  "lower ''bangalore'' = ''bangalore''" "lower ''goa'' = ''goa''" "lower ''mumbai'' = ''mumbai''"
  by code_simp+

text \<open>The shape and the title of the record built for one item.\<close>

lemma py_or_nonempty: "d \<noteq> [] \<Longrightarrow> py_or s d \<noteq> []"
  by (simp add: py_or_def)

lemma bangalore_item_shape:
  "bangalore_item w url item = Inr r \<Longrightarrow>
     map fst r = [''university'', ''title'', ''description'', ''link'']
     \<and> map_of r ''university'' = Some (PyStr ''Bangalore'')"
  by (auto simp add: bangalore_item_def Let_def split: option.splits if_splits sum.splits)

lemma goa_item_shape:
  "map fst (goa_item located) = [''university'', ''title'', ''details'']
   \<and> map_of (goa_item located) ''university'' = Some (PyStr ''Goa'')"
  by (cases located) (simp add: goa_item_def Let_def)

lemma mumbai_item_shape:
  "mumbai_item w url li = Inr r \<Longrightarrow>
     map fst r = [''university'', ''title'', ''link'']
     \<and> map_of r ''university'' = Some (PyStr ''Mumbai'')"
  by (auto simp add: mumbai_item_def Let_def split: option.splits if_splits sum.splits)

lemma bangalore_item_title:
  "bangalore_item w url item = Inr r \<Longrightarrow>
   map_of r ''title'' =
     Some (PyStr (py_or (strip (get_text
       (case find_first (named ''a'') (contents item) of
          None \<Rightarrow> item
        | Some a \<Rightarrow> (case get_attr a ''href'' of
                       None \<Rightarrow> item
                     | Some href \<Rightarrow> if href \<noteq> [] then a else item)))) ''Untitled''))"
  by (auto simp add: bangalore_item_def Let_def split: option.splits if_splits sum.splits)

lemma mumbai_item_title:
  "mumbai_item w url li = Inr r \<Longrightarrow>
   map_of r ''title'' =
     Some (PyStr (py_or (strip (get_text
       (case find_first (named ''a'') (contents li) of
          None \<Rightarrow> li
        | Some a \<Rightarrow> (case get_attr a ''href'' of
                       None \<Rightarrow> li
                     | Some href \<Rightarrow> if href \<noteq> [] then a else li)))) ''Untitled''))"
  by (auto simp add: mumbai_item_def Let_def split: option.splits if_splits sum.splits)

text \<open>
  An item without a usable link always gives a record; an item with one gives a record
  when \<open>urljoin\<close> returns, and \<open>ValueError\<close> when it raises.
\<close>

lemma bangalore_item_unlinked:
  assumes "find_first (named ''a'') (contents item) = None
           \<or> (\<exists>a. find_first (named ''a'') (contents item) = Some a
                   \<and> (get_attr a ''href'' = None \<or> get_attr a ''href'' = Some []))"
  shows "bangalore_item w url item =
           Inr [(''university'', PyStr ''Bangalore''),
                (''title'', PyStr (py_or (strip (get_text item)) ''Untitled'')),
                (''description'', PyNone), (''link'', PyNone)]"
  using assms by (auto simp add: bangalore_item_def Let_def)

lemma mumbai_item_unlinked:
  assumes "find_first (named ''a'') (contents li) = None
           \<or> (\<exists>a. find_first (named ''a'') (contents li) = Some a
                   \<and> (get_attr a ''href'' = None \<or> get_attr a ''href'' = Some []))"
  shows "mumbai_item w url li =
           Inr [(''university'', PyStr ''Mumbai''),
                (''title'', PyStr (py_or (strip (get_text li)) ''Untitled'')),
                (''link'', PyNone)]"
  using assms by (auto simp add: mumbai_item_def Let_def)

lemma bangalore_item_linked:
  assumes "find_first (named ''a'') (contents item) = Some a"
      and "get_attr a ''href'' = Some href" and "href \<noteq> []"
  shows "bangalore_item w url item =
           (case urljoin w url href of
              None \<Rightarrow> Inl ValueError
            | Some link \<Rightarrow>
                Inr [(''university'', PyStr ''Bangalore''),
                     (''title'', PyStr (py_or (strip (get_text a)) ''Untitled'')),
                     (''description'', PyNone), (''link'', PyStr link)])"
  using assms by (simp add: bangalore_item_def py_urljoin_def Let_def split: option.splits)

lemma mumbai_item_linked:
  assumes "find_first (named ''a'') (contents li) = Some a"
      and "get_attr a ''href'' = Some href" and "href \<noteq> []"
  shows "mumbai_item w url li =
           (case urljoin w url href of
              None \<Rightarrow> Inl ValueError
            | Some link \<Rightarrow>
                Inr [(''university'', PyStr ''Mumbai''),
                     (''title'', PyStr (py_or (strip (get_text a)) ''Untitled'')),
                     (''link'', PyStr link)])"
  using assms by (simp add: mumbai_item_def py_urljoin_def Let_def split: option.splits)

lemma goa_item_fields:
  "map_of (goa_item (h4, following)) ''title''
     = Some (PyStr (py_or (strip (get_text h4)) ''Untitled''))
   \<and> map_of (goa_item (h4, following)) ''details''
     = Some (PyList (case find_next_sibling following of
                       None \<Rightarrow> []
                     | Some e \<Rightarrow>
                         if name e = ''ul''
                         then map (\<lambda>li. strip (get_text li)) (find_all (named ''li'') (contents e))
                         else []))"
  by (simp add: goa_item_def Let_def)

text \<open>
  The siblings paired with a node by \<open>walk\<close> are the nodes after it in the list it was
  found in, which is the list walked or the contents of a node below it; and the next
  sibling element is the first element among them, with no element skipped.
\<close>

lemma walk_following:
  "(n, fs) \<in> set (walk ns) \<Longrightarrow>
     (\<exists>before. ns = before @ n # fs)
     \<or> (\<exists>p before. p \<in> set (descendants ns) \<and> contents p = before @ n # fs)"
proof (induction ns rule: walk.induct)
  case 1
  then show ?case by simp
next
  case (2 s rest)
  show ?case
  proof (cases "(n, fs) = (NavigableString s, rest)")
    case True
    then have "NavigableString s # rest = [] @ n # fs" by simp
    then show ?thesis by blast
  next
    case False
    with "2.prems" have "(n, fs) \<in> set (walk rest)" by auto
    from "2.IH" [OF this] show ?thesis
    proof
      assume "\<exists>before. rest = before @ n # fs"
      then obtain before where "rest = before @ n # fs" ..
      then have "NavigableString s # rest = (NavigableString s # before) @ n # fs" by simp
      then show ?thesis by blast
    next
      assume "\<exists>p before. p \<in> set (descendants rest) \<and> contents p = before @ n # fs"
      then show ?thesis by (auto simp add: descendants_def)
    qed
  qed
next
  case (3 nm a cs rest)
  from "3.prems" consider "(n, fs) = (Tag nm a cs, rest)" | "(n, fs) \<in> set (walk cs)"
    | "(n, fs) \<in> set (walk rest)" by auto
  then show ?case
  proof cases
    case 1
    then have "Tag nm a cs # rest = [] @ n # fs" by simp
    then show ?thesis by blast
  next
    case 2
    from "3.IH"(1) [OF this] show ?thesis
    proof
      assume "\<exists>before. cs = before @ n # fs"
      then obtain before where "contents (Tag nm a cs) = before @ n # fs" by auto
      moreover have "Tag nm a cs \<in> set (descendants (Tag nm a cs # rest))"
        by (simp add: descendants_def)
      ultimately show ?thesis by blast
    next
      assume "\<exists>p before. p \<in> set (descendants cs) \<and> contents p = before @ n # fs"
      then show ?thesis by (auto simp add: descendants_def)
    qed
  next
    case 3
    from "3.IH"(2) [OF this] show ?thesis
    proof
      assume "\<exists>before. rest = before @ n # fs"
      then obtain before where "rest = before @ n # fs" ..
      then have "Tag nm a cs # rest = (Tag nm a cs # before) @ n # fs" by simp
      then show ?thesis by blast
    next
      assume "\<exists>p before. p \<in> set (descendants rest) \<and> contents p = before @ n # fs"
      then show ?thesis by (auto simp add: descendants_def)
    qed
  qed
qed

lemma find_next_sibling_first:
  "find_next_sibling fs = Some e \<Longrightarrow>
     \<exists>skipped later. fs = skipped @ e # later \<and> is_tag e \<and> (\<forall>x \<in> set skipped. \<not> is_tag x)"
  unfolding find_next_sibling_def
proof (induction fs)
  case Nil
  then show ?case by simp
next
  case (Cons x fs)
  show ?case
  proof (cases "is_tag x")
    case True
    with Cons.prems have "x = e" by simp
    with True have "x # fs = [] @ e # fs \<and> is_tag e \<and> (\<forall>y \<in> set []. \<not> is_tag y)" by simp
    then show ?thesis by blast
  next
    case False
    with Cons.prems have "List.find is_tag fs = Some e" by simp
    from Cons.IH [OF this] obtain skipped later
      where "fs = skipped @ e # later" "is_tag e" "\<forall>y \<in> set skipped. \<not> is_tag y" by blast
    with False have "x # fs = (x # skipped) @ e # later \<and> is_tag e
        \<and> (\<forall>y \<in> set (x # skipped). \<not> is_tag y)" by simp
    then show ?thesis by blast
  qed
qed

section \<open>Failed fetches and missing structure\<close>

text \<open>
  Claim C4, as stated, counts every status outside 200 to 299 as a failed fetch. The
  extractors call \<open>raise_for_status\<close>, which raises from 400 to 599 only: a response with
  status 300 is parsed, and the Bangalore extractor returns the three records of its page.
\<close>

theorem C4_counterexample:
  "http_get (static_world 300) bangalore_url = Responded \<lparr>status_code = 300, content = ''B''\<rparr>
   \<and> \<not> (200 \<le> status_code \<lparr>status_code = 300, content = ''B''\<rparr>
         \<and> status_code \<lparr>status_code = 300, content = ''B''\<rparr> < 300)
   \<and> scrape_bangalore_notifications (static_world 300) [] =
       (Inr [[(''university'', PyStr ''Bangalore''), (''title'', PyStr ''Admission notice''),
              (''description'', PyNone), (''link'', PyStr ''https://example.org/n1.pdf'')],
             [(''university'', PyStr ''Bangalore''), (''title'', PyStr ''Untitled''),
              (''description'', PyNone), (''link'', PyNone)],
             [(''university'', PyStr ''Bangalore''), (''title'', PyStr ''See here''),
              (''description'', PyNone), (''link'', PyNone)]], [bangalore_url])"
  by code_simp

text \<open>
  Claim C4. When the fetch of its URL fails with a network error, a timeout or a status
  from 400 to 599, an extractor returns the empty list and does not raise. When the page
  lacks the anchor elements (no \<open>container\<close> block or no list in it for Bangalore, no
  \<open>details1\<close> block or no \<open>details1_left\<close> block in it for Goa, nothing selected for
  Mumbai), it returns the empty list as well, and does not raise. In each case the
  extractor has sent its one request.
\<close>

theorem C4_failed_fetch_gives_empty_list:
  "((http_get w bangalore_url = ConnectionFailed \<or> http_get w bangalore_url = TimedOut
        \<or> (\<exists>r. http_get w bangalore_url = Responded r
                \<and> 400 \<le> status_code r \<and> status_code r < 600)) \<longrightarrow>
       scrape_bangalore_notifications w tr = (Inr [], tr @ [bangalore_url]))
   \<and> ((http_get w goa_url = ConnectionFailed \<or> http_get w goa_url = TimedOut
        \<or> (\<exists>r. http_get w goa_url = Responded r
                \<and> 400 \<le> status_code r \<and> status_code r < 600)) \<longrightarrow>
       scrape_goa_notifications w tr = (Inr [], tr @ [goa_url]))
   \<and> ((http_get w mumbai_url = ConnectionFailed \<or> http_get w mumbai_url = TimedOut
        \<or> (\<exists>r. http_get w mumbai_url = Responded r
                \<and> 400 \<le> status_code r \<and> status_code r < 600)) \<longrightarrow>
       scrape_mumbai_notifications w tr = (Inr [], tr @ [mumbai_url]))
   \<and> (\<forall>r. http_get w bangalore_url = Responded r
           \<and> (find_first (\<lambda>e. named ''div'' e \<and> has_class ''container'' e)
                  (html_parser w (content r)) = None
               \<or> (\<exists>container.
                     find_first (\<lambda>e. named ''div'' e \<and> has_class ''container'' e)
                       (html_parser w (content r)) = Some container
                     \<and> find_first (named ''ul'') (contents container) = None)) \<longrightarrow>
       scrape_bangalore_notifications w tr = (Inr [], tr @ [bangalore_url]))
   \<and> (\<forall>r. http_get w goa_url = Responded r
           \<and> (find_first (\<lambda>e. named ''div'' e \<and> has_class ''details1'' e)
                  (html_parser w (content r)) = None
               \<or> (\<exists>inside_wrapper.
                     find_first (\<lambda>e. named ''div'' e \<and> has_class ''details1'' e)
                       (html_parser w (content r)) = Some inside_wrapper
                     \<and> find_first (\<lambda>e. named ''div'' e \<and> has_class ''details1_left'' e)
                         (contents inside_wrapper) = None)) \<longrightarrow>
       scrape_goa_notifications w tr = (Inr [], tr @ [goa_url]))
   \<and> (\<forall>r. http_get w mumbai_url = Responded r
           \<and> select [ById ''main'', ByClass ''entry-content'', ByClass ''wpb_text_column'',
                      ByType ''ul'', ByType ''li''] (html_parser w (content r)) = [] \<longrightarrow>
       scrape_mumbai_notifications w tr = (Inr [], tr @ [mumbai_url]))"
proof (intro conjI allI impI)
  assume "http_get w bangalore_url = ConnectionFailed \<or> http_get w bangalore_url = TimedOut
        \<or> (\<exists>r. http_get w bangalore_url = Responded r
                \<and> 400 \<le> status_code r \<and> status_code r < 600)"
  then show "scrape_bangalore_notifications w tr = (Inr [], tr @ [bangalore_url])"
    by (auto simp add: scrape_bangalore_answered)
next
  assume "http_get w goa_url = ConnectionFailed \<or> http_get w goa_url = TimedOut
        \<or> (\<exists>r. http_get w goa_url = Responded r
                \<and> 400 \<le> status_code r \<and> status_code r < 600)"
  then show "scrape_goa_notifications w tr = (Inr [], tr @ [goa_url])"
    by (auto simp add: scrape_goa_answered)
next
  assume "http_get w mumbai_url = ConnectionFailed \<or> http_get w mumbai_url = TimedOut
        \<or> (\<exists>r. http_get w mumbai_url = Responded r
                \<and> 400 \<le> status_code r \<and> status_code r < 600)"
  then show "scrape_mumbai_notifications w tr = (Inr [], tr @ [mumbai_url])"
    by (auto simp add: scrape_mumbai_answered)
next
  fix r
  assume "http_get w bangalore_url = Responded r
           \<and> (find_first (\<lambda>e. named ''div'' e \<and> has_class ''container'' e)
                  (html_parser w (content r)) = None
               \<or> (\<exists>container.
                     find_first (\<lambda>e. named ''div'' e \<and> has_class ''container'' e)
                       (html_parser w (content r)) = Some container
                     \<and> find_first (named ''ul'') (contents container) = None))"
  then show "scrape_bangalore_notifications w tr = (Inr [], tr @ [bangalore_url])"
    by (auto simp add: scrape_bangalore_answered)
next
  fix r
  assume "http_get w goa_url = Responded r
           \<and> (find_first (\<lambda>e. named ''div'' e \<and> has_class ''details1'' e)
                  (html_parser w (content r)) = None
               \<or> (\<exists>inside_wrapper.
                     find_first (\<lambda>e. named ''div'' e \<and> has_class ''details1'' e)
                       (html_parser w (content r)) = Some inside_wrapper
                     \<and> find_first (\<lambda>e. named ''div'' e \<and> has_class ''details1_left'' e)
                         (contents inside_wrapper) = None))"
  then show "scrape_goa_notifications w tr = (Inr [], tr @ [goa_url])"
    by (auto simp add: scrape_goa_answered)
next
  fix r
  assume "http_get w mumbai_url = Responded r
           \<and> select [ById ''main'', ByClass ''entry-content'', ByClass ''wpb_text_column'',
                      ByType ''ul'', ByType ''li''] (html_parser w (content r)) = []"
  then show "scrape_mumbai_notifications w tr = (Inr [], tr @ [mumbai_url])"
    by (auto simp add: scrape_mumbai_answered)
qed


theorem C4_failed_fetch_gives_empty_list_witness:
  "scrape_bangalore_notifications (failing_world ConnectionFailed) []
     = (Inr [], [bangalore_url])
   \<and> scrape_goa_notifications (failing_world TimedOut) [] = (Inr [], [goa_url])
   \<and> scrape_mumbai_notifications
        (failing_world (Responded \<lparr>status_code = 503, content = []\<rparr>)) []
     = (Inr [], [mumbai_url])
   \<and> scrape_bangalore_notifications
        (failing_world (Responded \<lparr>status_code = 200, content = []\<rparr>)) []
     = (Inr [], [bangalore_url])
   \<and> scrape_goa_notifications
        (failing_world (Responded \<lparr>status_code = 200, content = []\<rparr>)) []
     = (Inr [], [goa_url])
   \<and> scrape_mumbai_notifications
        (failing_world (Responded \<lparr>status_code = 200, content = []\<rparr>)) []
     = (Inr [], [mumbai_url])
   \<and> scrape_bangalore_notifications
        \<lparr>http_get = (\<lambda>url. Responded \<lparr>status_code = 200, content = []\<rparr>),
         html_parser = (\<lambda>body. [Tag ''div'' [(''class'', ''container details1'')] []]),
         urljoin = (\<lambda>base href. Some href)\<rparr> []
     = (Inr [], [bangalore_url])
   \<and> scrape_goa_notifications
        \<lparr>http_get = (\<lambda>url. Responded \<lparr>status_code = 200, content = []\<rparr>),
         html_parser = (\<lambda>body. [Tag ''div'' [(''class'', ''container details1'')] []]),
         urljoin = (\<lambda>base href. Some href)\<rparr> []
     = (Inr [], [goa_url])"
proof -
  let ?ok = "\<lparr>status_code = 200, content = []\<rparr>"
  let ?bad = "\<lparr>status_code = 503, content = []\<rparr>"
  let ?box = "Tag ''div'' [(''class'', ''container details1'')] []"
  let ?v = "\<lparr>http_get = (\<lambda>url. Responded ?ok), html_parser = (\<lambda>body. [?box]),
             urljoin = (\<lambda>base href. Some href)\<rparr>"
  have a: "http_get (failing_world ConnectionFailed) bangalore_url = ConnectionFailed"
    by (simp add: failing_world_def)
  have b: "http_get (failing_world TimedOut) goa_url = TimedOut"
    by (simp add: failing_world_def)
  have c: "http_get (failing_world (Responded ?bad)) mumbai_url = Responded ?bad
           \<and> 400 \<le> status_code ?bad \<and> status_code ?bad < 600"
    by (simp add: failing_world_def)
  have d1: "http_get (failing_world (Responded ?ok)) bangalore_url = Responded ?ok
      \<and> find_first (\<lambda>e. named ''div'' e \<and> has_class ''container'' e)
           (html_parser (failing_world (Responded ?ok)) (content ?ok)) = None"
    by code_simp
  have d2: "http_get (failing_world (Responded ?ok)) goa_url = Responded ?ok
      \<and> find_first (\<lambda>e. named ''div'' e \<and> has_class ''details1'' e)
           (html_parser (failing_world (Responded ?ok)) (content ?ok)) = None"
    by code_simp
  have d3: "http_get (failing_world (Responded ?ok)) mumbai_url = Responded ?ok
      \<and> select [ById ''main'', ByClass ''entry-content'', ByClass ''wpb_text_column'',
                 ByType ''ul'', ByType ''li'']
           (html_parser (failing_world (Responded ?ok)) (content ?ok)) = []"
    by code_simp
  have e1: "http_get ?v bangalore_url = Responded ?ok
      \<and> find_first (\<lambda>e. named ''div'' e \<and> has_class ''container'' e)
           (html_parser ?v (content ?ok)) = Some ?box
      \<and> find_first (named ''ul'') (contents ?box) = None"
    by code_simp
  have e2: "http_get ?v goa_url = Responded ?ok
      \<and> find_first (\<lambda>e. named ''div'' e \<and> has_class ''details1'' e)
           (html_parser ?v (content ?ok)) = Some ?box
      \<and> find_first (\<lambda>e. named ''div'' e \<and> has_class ''details1_left'' e)
           (contents ?box) = None"
    by code_simp
  note t = C4_failed_fetch_gives_empty_list
  from t [of "failing_world ConnectionFailed" "[]"] a
  have c1: "scrape_bangalore_notifications (failing_world ConnectionFailed) []
              = (Inr [], [] @ [bangalore_url])" by blast
  from t [of "failing_world TimedOut" "[]"] b
  have c2: "scrape_goa_notifications (failing_world TimedOut) [] = (Inr [], [] @ [goa_url])"
    by blast
  from t [of "failing_world (Responded ?bad)" "[]"] c
  have c3: "scrape_mumbai_notifications (failing_world (Responded ?bad)) []
              = (Inr [], [] @ [mumbai_url])" by blast
  from t [of "failing_world (Responded ?ok)" "[]"] d1
  have c4: "scrape_bangalore_notifications (failing_world (Responded ?ok)) []
              = (Inr [], [] @ [bangalore_url])" by blast
  from t [of "failing_world (Responded ?ok)" "[]"] d2
  have c5: "scrape_goa_notifications (failing_world (Responded ?ok)) []
              = (Inr [], [] @ [goa_url])" by blast
  from t [of "failing_world (Responded ?ok)" "[]"] d3
  have c6: "scrape_mumbai_notifications (failing_world (Responded ?ok)) []
              = (Inr [], [] @ [mumbai_url])" by blast
  from t [of ?v "[]"] e1
  have c7: "scrape_bangalore_notifications ?v [] = (Inr [], [] @ [bangalore_url])" by blast
  from t [of ?v "[]"] e2
  have c8: "scrape_goa_notifications ?v [] = (Inr [], [] @ [goa_url])" by blast
  from c1 c2 c3 c4 c5 c6 c7 c8 show ?thesis by (simp only: append_Nil) 
qed

text \<open>
  After a fetch that succeeds and a page that has its anchors, the Bangalore and Mumbai
  extractors can still raise: \<open>urljoin\<close> is called outside the \<open>try\<close>. On the page whose
  link cannot be split, the Bangalore extractor raises \<open>ValueError\<close>, and the endpoint
  answers 500.
\<close>

lemma unsplittable_link_raises:
  "scrape_bangalore_notifications strict_world [] = (Inl ValueError, [bangalore_url])
   \<and> get_university_announcements strict_world ''bangalore'' 100 0 []
       = (Inl (HTTPException 500 ''Internal server error''), [bangalore_url])"
  by code_simp

section \<open>The announcement endpoints\<close>

text \<open>
  Claim C1. When the extraction or the aggregation yields the empty list, also when every
  remote fetch fails, the endpoints \<open>/announcements\<close> and \<open>/announcements/{university}\<close>
  should answer 404. Both handlers raise their 404 inside the \<open>try\<close> block whose
  \<open>except Exception\<close> clause catches it, so the answer is 500: here with every connection
  failing, and with every site answering 503.
\<close>

theorem C1_empty_result_answered_500:
  "get_all_announcements (failing_world ConnectionFailed) 100 0 []
     = (Inl (HTTPException 500 ''Internal server error''),
        [bangalore_url, goa_url, mumbai_url])
   \<and> get_university_announcements
        (failing_world (Responded \<lparr>status_code = 503, content = []\<rparr>)) ''goa'' 100 0 []
     = (Inl (HTTPException 500 ''Internal server error''), [goa_url])"
  by code_simp

text \<open>
  Claim C3. The list aggregated by \<open>/announcements\<close> is the output of the Bangalore
  extractor, then that of the Goa extractor, then that of the Mumbai extractor, each in its
  own order and with nothing merged, sorted or removed: the endpoint pages through exactly
  this list, counts it as the total, returns the whole of it when the page covers it, and
  the three sites are requested in that order.
\<close>

theorem C3_aggregation_order:
  assumes "scrape_bangalore_notifications w tr = (Inr B, tr1)"
      and "scrape_goa_notifications w tr1 = (Inr G, tr2)"
      and "scrape_mumbai_notifications w tr2 = (Inr M, tr3)"
      and "B @ G @ M \<noteq> []"
  shows "get_all_announcements w limit offset tr =
           (Inr \<lparr>resp_data = py_slice (B @ G @ M) offset (offset + limit),
                  resp_total = int (length (B @ G @ M)),
                  resp_limit = limit,
                  resp_offset = offset\<rparr>, tr3)
       \<and> py_slice (B @ G @ M) 0 (0 + int (length (B @ G @ M))) = B @ G @ M
       \<and> tr3 = tr @ [bangalore_url, goa_url, mumbai_url]"
proof (intro conjI)
  from assms show "get_all_announcements w limit offset tr =
           (Inr \<lparr>resp_data = py_slice (B @ G @ M) offset (offset + limit),
                  resp_total = int (length (B @ G @ M)),
                  resp_limit = limit,
                  resp_offset = offset\<rparr>, tr3)"
    by (simp add: get_all_announcements_run)
next
  show "py_slice (B @ G @ M) 0 (0 + int (length (B @ G @ M))) = B @ G @ M"
    by (rule py_slice_whole)
next
  from scrape_requests(1) [of w tr] assms(1) have "tr1 = tr @ [bangalore_url]" by simp
  moreover from scrape_requests(2) [of w tr1] assms(2) have "tr2 = tr1 @ [goa_url]" by simp
  moreover from scrape_requests(3) [of w tr2] assms(3) have "tr3 = tr2 @ [mumbai_url]" by simp
  ultimately show "tr3 = tr @ [bangalore_url, goa_url, mumbai_url]" by simp
qed


theorem C3_aggregation_order_witness:
  "get_all_announcements (static_world 200) 6 0 [] =
     (Inr \<lparr>resp_data =
         [[(''university'', PyStr ''Bangalore''), (''title'', PyStr ''Admission notice''),
           (''description'', PyNone), (''link'', PyStr ''https://example.org/n1.pdf'')],
          [(''university'', PyStr ''Bangalore''), (''title'', PyStr ''Untitled''),
           (''description'', PyNone), (''link'', PyNone)],
          [(''university'', PyStr ''Bangalore''), (''title'', PyStr ''See here''),
           (''description'', PyNone), (''link'', PyNone)],
          [(''university'', PyStr ''Goa''), (''title'', PyStr ''PhD admissions''),
           (''details'', PyList [''Apply by May'', ''Fee''])],
          [(''university'', PyStr ''Goa''), (''title'', PyStr ''Untitled''),
           (''details'', PyList [])],
          [(''university'', PyStr ''Mumbai''), (''title'', PyStr ''Circular''),
           (''link'', PyStr ''https://example.org/c.pdf'')]],
        resp_total = 6, resp_limit = 6, resp_offset = 0\<rparr>,
      [bangalore_url, goa_url, mumbai_url])"
proof -
  have b: "scrape_bangalore_notifications (static_world 200) [] =
     (Inr [[(''university'', PyStr ''Bangalore''), (''title'', PyStr ''Admission notice''),
            (''description'', PyNone), (''link'', PyStr ''https://example.org/n1.pdf'')],
           [(''university'', PyStr ''Bangalore''), (''title'', PyStr ''Untitled''),
            (''description'', PyNone), (''link'', PyNone)],
           [(''university'', PyStr ''Bangalore''), (''title'', PyStr ''See here''),
            (''description'', PyNone), (''link'', PyNone)]], [bangalore_url])"
    by code_simp
  have g: "scrape_goa_notifications (static_world 200) [bangalore_url] =
     (Inr [[(''university'', PyStr ''Goa''), (''title'', PyStr ''PhD admissions''),
            (''details'', PyList [''Apply by May'', ''Fee''])],
           [(''university'', PyStr ''Goa''), (''title'', PyStr ''Untitled''),
            (''details'', PyList [])]], [bangalore_url, goa_url])"
    by code_simp
  have m: "scrape_mumbai_notifications (static_world 200) [bangalore_url, goa_url] =
     (Inr [[(''university'', PyStr ''Mumbai''), (''title'', PyStr ''Circular''),
            (''link'', PyStr ''https://example.org/c.pdf'')]],
      [bangalore_url, goa_url, mumbai_url])"
    by code_simp
  from C3_aggregation_order [OF b g m, of 6 0] show ?thesis
    by (simp add: py_slice_def clamp_index_def)
qed

text \<open>
  Claim C5. For a result list that is not empty and an offset at or past its length, both
  announcement endpoints return the empty list as data, the full length of the list as
  total, and the limit and offset of the request.
\<close>

theorem C5_offset_past_end:
  assumes "1 \<le> limit" and "int (length S) \<le> offset" and "S \<noteq> []"
  shows "(scrape_bangalore_notifications w tr = (Inr B, tr1)
          \<and> scrape_goa_notifications w tr1 = (Inr G, tr2)
          \<and> scrape_mumbai_notifications w tr2 = (Inr M, tr3)
          \<and> S = B @ G @ M
          \<longrightarrow> get_all_announcements w limit offset tr =
                (Inr \<lparr>resp_data = [], resp_total = int (length S),
                       resp_limit = limit, resp_offset = offset\<rparr>, tr3))
       \<and> (scrapers (lower university) = Some scraper \<and> scraper w tr = (Inr S, tr')
          \<longrightarrow> get_university_announcements w university limit offset tr =
                (Inr \<lparr>resp_data = [], resp_total = int (length S),
                       resp_limit = limit, resp_offset = offset\<rparr>, tr'))"
proof -
  from assms have empty: "py_slice S offset (offset + limit) = []"
    by (simp add: py_slice_past_end)
  show ?thesis
  proof (intro conjI impI)
    assume run: "scrape_bangalore_notifications w tr = (Inr B, tr1)
          \<and> scrape_goa_notifications w tr1 = (Inr G, tr2)
          \<and> scrape_mumbai_notifications w tr2 = (Inr M, tr3)
          \<and> S = B @ G @ M"
    then have "get_all_announcements w limit offset tr =
           (if B @ G @ M = []
            then (Inl (HTTPException 500 ''Internal server error''), tr3)
            else (Inr \<lparr>resp_data = py_slice (B @ G @ M) offset (offset + limit),
                       resp_total = int (length (B @ G @ M)),
                       resp_limit = limit,
                       resp_offset = offset\<rparr>, tr3))"
      by (simp only: get_all_announcements_run)
    with run assms(3) empty show "get_all_announcements w limit offset tr =
                (Inr \<lparr>resp_data = [], resp_total = int (length S),
                       resp_limit = limit, resp_offset = offset\<rparr>, tr3)"
      by simp
  next
    assume run: "scrapers (lower university) = Some scraper \<and> scraper w tr = (Inr S, tr')"
    then have "get_university_announcements w university limit offset tr =
           (if S = []
            then (Inl (HTTPException 500 ''Internal server error''), tr')
            else (Inr \<lparr>resp_data = py_slice S offset (offset + limit),
                       resp_total = int (length S),
                       resp_limit = limit,
                       resp_offset = offset\<rparr>, tr'))"
      by (simp only: get_university_announcements_run)
    with assms(3) empty show "get_university_announcements w university limit offset tr =
                (Inr \<lparr>resp_data = [], resp_total = int (length S),
                       resp_limit = limit, resp_offset = offset\<rparr>, tr')"
      by simp
  qed
qed

theorem C5_offset_past_end_witness:
  "get_all_announcements (static_world 200) 2 7 [] =
     (Inr \<lparr>resp_data = [], resp_total = 6, resp_limit = 2, resp_offset = 7\<rparr>,
      [bangalore_url, goa_url, mumbai_url])
   \<and> get_university_announcements (static_world 200) ''Mumbai'' 2 1 [] =
     (Inr \<lparr>resp_data = [], resp_total = 1, resp_limit = 2, resp_offset = 1\<rparr>, [mumbai_url])"
proof -
  let ?w = "static_world 200"
  let ?B = "[[(''university'', PyStr ''Bangalore''), (''title'', PyStr ''Admission notice''),
            (''description'', PyNone), (''link'', PyStr ''https://example.org/n1.pdf'')],
           [(''university'', PyStr ''Bangalore''), (''title'', PyStr ''Untitled''),
            (''description'', PyNone), (''link'', PyNone)],
           [(''university'', PyStr ''Bangalore''), (''title'', PyStr ''See here''),
            (''description'', PyNone), (''link'', PyNone)]]"
  let ?G = "[[(''university'', PyStr ''Goa''), (''title'', PyStr ''PhD admissions''),
            (''details'', PyList [''Apply by May'', ''Fee''])],
           [(''university'', PyStr ''Goa''), (''title'', PyStr ''Untitled''),
            (''details'', PyList [])]]"
  let ?M = "[[(''university'', PyStr ''Mumbai''), (''title'', PyStr ''Circular''),
            (''link'', PyStr ''https://example.org/c.pdf'')]]"
  have b: "scrape_bangalore_notifications ?w [] = (Inr ?B, [bangalore_url])"
    by code_simp
  have g: "scrape_goa_notifications ?w [bangalore_url] = (Inr ?G, [bangalore_url, goa_url])"
    by code_simp
  have m: "scrape_mumbai_notifications ?w [bangalore_url, goa_url]
             = (Inr ?M, [bangalore_url, goa_url, mumbai_url])"
    by code_simp
  have m0: "scrape_mumbai_notifications ?w [] = (Inr ?M, [mumbai_url])"
    by code_simp
  have key: "scrapers (lower ''Mumbai'') = Some scrape_mumbai_notifications"
  proof -
    have "lower ''Mumbai'' = ''mumbai''" by code_simp
    then show ?thesis by (simp add: scrapers_def)
  qed
  have all: "get_all_announcements ?w 2 7 [] =
     (Inr \<lparr>resp_data = [], resp_total = int (length (?B @ ?G @ ?M)),
            resp_limit = 2, resp_offset = 7\<rparr>, [bangalore_url, goa_url, mumbai_url])"
    using C5_offset_past_end [of 2 "?B @ ?G @ ?M" 7 ?w "[]" ?B "[bangalore_url]" ?G
        "[bangalore_url, goa_url]" ?M "[bangalore_url, goa_url, mumbai_url]"] b g m
    by simp
  have one: "get_university_announcements ?w ''Mumbai'' 2 1 [] =
     (Inr \<lparr>resp_data = [], resp_total = int (length ?M), resp_limit = 2, resp_offset = 1\<rparr>,
      [mumbai_url])"
    using C5_offset_past_end [of 2 ?M 1 ?w "[]" _ _ _ _ _ _ "''Mumbai''"
        scrape_mumbai_notifications "[mumbai_url]"] key m0
    by simp
  from all one show ?thesis by simp
qed

text \<open>
  Claim C9. The lookup of the source key ignores case: a path value whose lower-casing is
  \<open>bangalore\<close>, \<open>goa\<close> or \<open>mumbai\<close> resolves to that key's extractor and is answered as
  the key itself is, and any other path value is answered with the 404 that names it.
\<close>

theorem C9_case_insensitive_lookup:
  "(lower university = ''bangalore'' \<longrightarrow>
      scrapers (lower university) = Some scrape_bangalore_notifications
      \<and> get_university_announcements w university limit offset tr
          = get_university_announcements w ''bangalore'' limit offset tr)
   \<and> (lower university = ''goa'' \<longrightarrow>
      scrapers (lower university) = Some scrape_goa_notifications
      \<and> get_university_announcements w university limit offset tr
          = get_university_announcements w ''goa'' limit offset tr)
   \<and> (lower university = ''mumbai'' \<longrightarrow>
      scrapers (lower university) = Some scrape_mumbai_notifications
      \<and> get_university_announcements w university limit offset tr
          = get_university_announcements w ''mumbai'' limit offset tr)
   \<and> (lower university \<notin> {''bangalore'', ''goa'', ''mumbai''} \<longrightarrow>
      scrapers (lower university) = None
      \<and> get_university_announcements w university limit offset tr
          = (Inl (HTTPException 404
                    (''University '' @ [CHR 0x27] @ university @ [CHR 0x27] @ '' not found'')),
             tr))"
proof -
  have same: "get_university_announcements w university limit offset tr
                = get_university_announcements w k limit offset tr"
    if "lower university = k" and "lower k = k" and "scrapers k = Some scraper"
    for k scraper
  proof -
    obtain S tr' where run: "scraper w tr = (S, tr')" by (cases "scraper w tr")
    show ?thesis
    proof (cases S)
      case (Inl e)
      with run that show ?thesis
        by (cases e) (simp_all add: get_university_announcements_def io_try_def io_bind_def
            io_raise_def Let_def)
    next
      case (Inr xs)
      with run that show ?thesis
        by (simp add: get_university_announcements_run)
    qed
  qed
  have b: "scrapers ''bangalore'' = Some scrape_bangalore_notifications"
    and g: "scrapers ''goa'' = Some scrape_goa_notifications"
    and m: "scrapers ''mumbai'' = Some scrape_mumbai_notifications"
    by (simp_all add: scrapers_def)
  show ?thesis
  proof (intro conjI impI)
    assume "lower university \<notin> {''bangalore'', ''goa'', ''mumbai''}"
    then show none: "scrapers (lower university) = None" by (simp add: scrapers_dom)
    then show "get_university_announcements w university limit offset tr
          = (Inl (HTTPException 404
                    (''University '' @ [CHR 0x27] @ university @ [CHR 0x27] @ '' not found'')),
             tr)"
      by (rule get_university_announcements_unknown)
  qed (simp_all add: b g m same lower_keys)
qed

theorem C9_case_insensitive_lookup_witness:
  "lower ''BANGALORE'' = ''bangalore'' \<and> lower ''Bangalore'' = ''bangalore''
   \<and> lower ''Goa'' = ''goa'' \<and> lower ''mumbai'' = ''mumbai''
   \<and> lower ''Oxford'' \<notin> {''bangalore'', ''goa'', ''mumbai''}
   \<and> scrapers (lower ''BANGALORE'') = Some scrape_bangalore_notifications
   \<and> scrapers (lower ''Bangalore'') = Some scrape_bangalore_notifications
   \<and> get_university_announcements (static_world 200) ''BANGALORE'' 100 0 []
       = get_university_announcements (static_world 200) ''Bangalore'' 100 0 []
   \<and> scrapers (lower ''Goa'') = Some scrape_goa_notifications
   \<and> scrapers (lower ''mumbai'') = Some scrape_mumbai_notifications
   \<and> get_university_announcements (static_world 200) ''Oxford'' 100 0 []
       = (Inl (HTTPException 404 (''University '' @ [CHR 0x27] @ ''Oxford'' @ [CHR 0x27] @ '' not found'')), [])"
proof -
  have l1: "lower ''BANGALORE'' = ''bangalore''" by code_simp
  have l2: "lower ''Bangalore'' = ''bangalore''" by code_simp
  have l3: "lower ''Goa'' = ''goa''" by code_simp
  have l4: "lower ''mumbai'' = ''mumbai''" by code_simp
  have l5: "lower ''Oxford'' \<notin> {''bangalore'', ''goa'', ''mumbai''}" by code_simp
  note t = C9_case_insensitive_lookup
  from t [of "''BANGALORE''" "static_world 200" 100 0 "[]"]
       t [of "''Bangalore''" "static_world 200" 100 0 "[]"]
       t [of "''Goa''" "static_world 200" 100 0 "[]"]
       t [of "''mumbai''" "static_world 200" 100 0 "[]"]
       t [of "''Oxford''" "static_world 200" 100 0 "[]"]
       l1 l2 l3 l4 l5
  show ?thesis by simp
qed

text \<open>
  Claim C10. For a path value whose lower-casing is none of the three keys, the handler
  raises 404 with the detail \<open>University '<value>' not found\<close> and sends no request: the
  list of requests is the one it started with. The 404 is the handler's result, not
  turned into a 500.
\<close>

theorem C10_unknown_university_404_before_fetch:
  assumes "lower university \<notin> {''bangalore'', ''goa'', ''mumbai''}"
  shows "get_university_announcements w university limit offset tr =
           (Inl (HTTPException 404
                   (''University '' @ [CHR 0x27] @ university @ [CHR 0x27] @ '' not found'')),
            tr)"
proof -
  from assms have "scrapers (lower university) = None" by (simp add: scrapers_dom)
  then show ?thesis by (rule get_university_announcements_unknown)
qed

theorem C10_unknown_university_404_before_fetch_witness:
  "lower ''oxford'' \<notin> {''bangalore'', ''goa'', ''mumbai''}
   \<and> get_university_announcements (static_world 200) ''oxford'' 100 0 [] =
       (Inl (HTTPException 404 (''University '' @ [CHR 0x27] @ ''oxford'' @ [CHR 0x27] @ '' not found'')), [])"
proof -
  have h: "lower ''oxford'' \<notin> {''bangalore'', ''goa'', ''mumbai''}" by code_simp
  from h C10_unknown_university_404_before_fetch [OF h, of "static_world 200" 100 0 "[]"]
  show ?thesis by simp
qed

section \<open>The records\<close>

text \<open>
  Claim C8. Every record an extractor returns has that source's keys and no others, and
  carries that extractor's university name: Bangalore records have \<open>university\<close>,
  \<open>title\<close>, \<open>description\<close> and \<open>link\<close>; Goa records have \<open>university\<close>, \<open>title\<close> and
  \<open>details\<close>; Mumbai records have \<open>university\<close>, \<open>title\<close> and \<open>link\<close>.
\<close>

theorem C8_record_shapes:
  "(scrape_bangalore_notifications w tr = (Inr xs, tr1) \<longrightarrow>
      (\<forall>r \<in> set xs. map fst r = [''university'', ''title'', ''description'', ''link'']
                    \<and> map_of r ''university'' = Some (PyStr ''Bangalore'')))
   \<and> (scrape_goa_notifications w tr = (Inr ys, tr2) \<longrightarrow>
      (\<forall>r \<in> set ys. map fst r = [''university'', ''title'', ''details'']
                    \<and> map_of r ''university'' = Some (PyStr ''Goa'')))
   \<and> (scrape_mumbai_notifications w tr = (Inr zs, tr3) \<longrightarrow>
      (\<forall>r \<in> set zs. map fst r = [''university'', ''title'', ''link'']
                    \<and> map_of r ''university'' = Some (PyStr ''Mumbai'')))"
proof (intro conjI impI ballI)
  fix r assume run: "scrape_bangalore_notifications w tr = (Inr xs, tr1)" and r: "r \<in> set xs"
  from scrape_bangalore_items [OF run] r obtain item
    where "bangalore_item w bangalore_url item = Inr r" by blast
  from bangalore_item_shape [OF this]
  show "map fst r = [''university'', ''title'', ''description'', ''link'']"
    and "map_of r ''university'' = Some (PyStr ''Bangalore'')"
    by simp_all
next
  fix r assume run: "scrape_goa_notifications w tr = (Inr ys, tr2)" and r: "r \<in> set ys"
  from scrape_goa_total [of w tr] run obtain items
    where "ys = map goa_item items" by auto
  with r obtain item where "r = goa_item item" by auto
  then show "map fst r = [''university'', ''title'', ''details'']"
    and "map_of r ''university'' = Some (PyStr ''Goa'')"
    by (simp_all only: goa_item_shape)
next
  fix r assume run: "scrape_mumbai_notifications w tr = (Inr zs, tr3)" and r: "r \<in> set zs"
  from scrape_mumbai_items [OF run] r obtain item
    where "mumbai_item w mumbai_url item = Inr r" by blast
  from mumbai_item_shape [OF this]
  show "map fst r = [''university'', ''title'', ''link'']"
    and "map_of r ''university'' = Some (PyStr ''Mumbai'')"
    by simp_all
qed

theorem C8_record_shapes_witness:
  "scrape_bangalore_notifications (static_world 200) [] =
     (Inr [[(''university'', PyStr ''Bangalore''), (''title'', PyStr ''Admission notice''),
            (''description'', PyNone), (''link'', PyStr ''https://example.org/n1.pdf'')],
           [(''university'', PyStr ''Bangalore''), (''title'', PyStr ''Untitled''),
            (''description'', PyNone), (''link'', PyNone)],
           [(''university'', PyStr ''Bangalore''), (''title'', PyStr ''See here''),
            (''description'', PyNone), (''link'', PyNone)]], [bangalore_url])
   \<and> scrape_goa_notifications (static_world 200) [] =
     (Inr [[(''university'', PyStr ''Goa''), (''title'', PyStr ''PhD admissions''),
            (''details'', PyList [''Apply by May'', ''Fee''])],
           [(''university'', PyStr ''Goa''), (''title'', PyStr ''Untitled''),
            (''details'', PyList [])]], [goa_url])
   \<and> scrape_mumbai_notifications (static_world 200) [] =
     (Inr [[(''university'', PyStr ''Mumbai''), (''title'', PyStr ''Circular''),
            (''link'', PyStr ''https://example.org/c.pdf'')]], [mumbai_url])
   \<and> map fst [(''university'', PyStr ''Bangalore''), (''title'', PyStr ''See here''),
               (''description'', PyNone), (''link'', PyNone)]
       = [''university'', ''title'', ''description'', ''link'']
   \<and> map fst [(''university'', PyStr ''Goa''), (''title'', PyStr ''PhD admissions''),
               (''details'', PyList [''Apply by May'', ''Fee''])]
       = [''university'', ''title'', ''details'']
   \<and> map fst [(''university'', PyStr ''Mumbai''), (''title'', PyStr ''Circular''),
               (''link'', PyStr ''https://example.org/c.pdf'')]
       = [''university'', ''title'', ''link'']"
proof -
  let ?w = "static_world 200"
  let ?B = "[[(''university'', PyStr ''Bangalore''), (''title'', PyStr ''Admission notice''),
            (''description'', PyNone), (''link'', PyStr ''https://example.org/n1.pdf'')],
           [(''university'', PyStr ''Bangalore''), (''title'', PyStr ''Untitled''),
            (''description'', PyNone), (''link'', PyNone)],
           [(''university'', PyStr ''Bangalore''), (''title'', PyStr ''See here''),
            (''description'', PyNone), (''link'', PyNone)]]"
  let ?G = "[[(''university'', PyStr ''Goa''), (''title'', PyStr ''PhD admissions''),
            (''details'', PyList [''Apply by May'', ''Fee''])],
           [(''university'', PyStr ''Goa''), (''title'', PyStr ''Untitled''),
            (''details'', PyList [])]]"
  let ?M = "[[(''university'', PyStr ''Mumbai''), (''title'', PyStr ''Circular''),
            (''link'', PyStr ''https://example.org/c.pdf'')]]"
  have b: "scrape_bangalore_notifications ?w [] = (Inr ?B, [bangalore_url])"
    by code_simp
  have g: "scrape_goa_notifications ?w [] = (Inr ?G, [goa_url])"
    by code_simp
  have m: "scrape_mumbai_notifications ?w [] = (Inr ?M, [mumbai_url])"
    by code_simp
  from C8_record_shapes [of ?w "[]" ?B "[bangalore_url]" ?G "[goa_url]" ?M "[mumbai_url]"]
  have "(\<forall>r \<in> set ?B. map fst r = [''university'', ''title'', ''description'', ''link'']
                    \<and> map_of r ''university'' = Some (PyStr ''Bangalore''))
      \<and> (\<forall>r \<in> set ?G. map fst r = [''university'', ''title'', ''details'']
                    \<and> map_of r ''university'' = Some (PyStr ''Goa''))
      \<and> (\<forall>r \<in> set ?M. map fst r = [''university'', ''title'', ''link'']
                    \<and> map_of r ''university'' = Some (PyStr ''Mumbai''))"
    using b g m by blast
  then have "map fst [(''university'', PyStr ''Bangalore''), (''title'', PyStr ''See here''),
               (''description'', PyNone), (''link'', PyNone)]
       = [''university'', ''title'', ''description'', ''link'']
   \<and> map fst [(''university'', PyStr ''Goa''), (''title'', PyStr ''PhD admissions''),
               (''details'', PyList [''Apply by May'', ''Fee''])]
       = [''university'', ''title'', ''details'']
   \<and> map fst [(''university'', PyStr ''Mumbai''), (''title'', PyStr ''Circular''),
               (''link'', PyStr ''https://example.org/c.pdf'')]
       = [''university'', ''title'', ''link'']"
    by simp
  with b g m show ?thesis by blast
qed

text \<open>
  Claim C6, as stated, takes the title from the nested link whenever there is one. The
  Bangalore and Mumbai extractors do so only when the link has a non-empty \<open>href\<close>: for
  an item whose link has none, the title is the trimmed text of the whole item.
\<close>

theorem C6_counterexample:
  "find_first (named ''a'') (contents link_without_href)
     = Some (Tag ''a'' [(''name'', ''top'')] [NavigableString ''here''])
   \<and> strip (get_text (Tag ''a'' [(''name'', ''top'')] [NavigableString ''here''])) = ''here''
   \<and> bangalore_item (static_world 200) bangalore_url link_without_href
       = Inr [(''university'', PyStr ''Bangalore''), (''title'', PyStr ''See here''),
              (''description'', PyNone), (''link'', PyNone)]
   \<and> mumbai_item (static_world 200) mumbai_url link_without_href
       = Inr [(''university'', PyStr ''Mumbai''), (''title'', PyStr ''See here''),
              (''link'', PyNone)]"
  by code_simp

text \<open>
  Claim C6. For every item of the Bangalore and Mumbai extractors, the title is the
  trimmed text of the first nested link when there is one with a non-empty \<open>href\<close>, and
  the trimmed text of the item itself when there is no link or the link has no \<open>href\<close> or
  an empty one; when that trimmed text is empty the title is \<open>Untitled\<close>. So every record
  these extractors return has a title that is not empty. An item gives a record unless
  \<open>urljoin\<close> raises on its \<open>href\<close>; then it gives none, and \<open>ValueError\<close> leaves the
  extractor.
\<close>

theorem C6_titles:
  "(\<forall>a href link. find_first (named ''a'') (contents item) = Some a
              \<and> get_attr a ''href'' = Some href \<and> href \<noteq> []
              \<and> urljoin w url href = Some link \<longrightarrow>
       (\<exists>r. bangalore_item w url item = Inr r
            \<and> map_of r ''title''
                = Some (PyStr (if strip (get_text a) = [] then ''Untitled''
                               else strip (get_text a))))
     \<and> (\<exists>r. mumbai_item w url item = Inr r
            \<and> map_of r ''title''
                = Some (PyStr (if strip (get_text a) = [] then ''Untitled''
                               else strip (get_text a)))))
   \<and> (\<forall>a href. find_first (named ''a'') (contents item) = Some a
              \<and> get_attr a ''href'' = Some href \<and> href \<noteq> []
              \<and> urljoin w url href = None \<longrightarrow>
       bangalore_item w url item = Inl ValueError
       \<and> mumbai_item w url item = Inl ValueError)
   \<and> ((find_first (named ''a'') (contents item) = None
        \<or> (\<exists>a. find_first (named ''a'') (contents item) = Some a
                \<and> (get_attr a ''href'' = None \<or> get_attr a ''href'' = Some []))) \<longrightarrow>
       (\<exists>r. bangalore_item w url item = Inr r
            \<and> map_of r ''title''
                = Some (PyStr (if strip (get_text item) = [] then ''Untitled''
                               else strip (get_text item))))
     \<and> (\<exists>r. mumbai_item w url item = Inr r
            \<and> map_of r ''title''
                = Some (PyStr (if strip (get_text item) = [] then ''Untitled''
                               else strip (get_text item)))))
   \<and> (scrape_bangalore_notifications w tr = (Inr xs, tr1) \<longrightarrow>
        (\<forall>r \<in> set xs. \<exists>t. map_of r ''title'' = Some (PyStr t) \<and> t \<noteq> []))
   \<and> (scrape_mumbai_notifications w tr = (Inr zs, tr3) \<longrightarrow>
        (\<forall>r \<in> set zs. \<exists>t. map_of r ''title'' = Some (PyStr t) \<and> t \<noteq> []))"
proof (intro conjI impI allI ballI)
  fix a href link
  assume h: "find_first (named ''a'') (contents item) = Some a
            \<and> get_attr a ''href'' = Some href \<and> href \<noteq> []
            \<and> urljoin w url href = Some link"
  then show "\<exists>r. bangalore_item w url item = Inr r
            \<and> map_of r ''title''
                = Some (PyStr (if strip (get_text a) = [] then ''Untitled''
                               else strip (get_text a)))"
    by (simp add: bangalore_item_linked py_or_def)
  from h show "\<exists>r. mumbai_item w url item = Inr r
            \<and> map_of r ''title''
                = Some (PyStr (if strip (get_text a) = [] then ''Untitled''
                               else strip (get_text a)))"
    by (simp add: mumbai_item_linked py_or_def)
next
  fix a href
  assume h: "find_first (named ''a'') (contents item) = Some a
            \<and> get_attr a ''href'' = Some href \<and> href \<noteq> []
            \<and> urljoin w url href = None"
  then show "bangalore_item w url item = Inl ValueError"
    by (simp add: bangalore_item_linked)
  from h show "mumbai_item w url item = Inl ValueError"
    by (simp add: mumbai_item_linked)
next
  assume h: "find_first (named ''a'') (contents item) = None
        \<or> (\<exists>a. find_first (named ''a'') (contents item) = Some a
                \<and> (get_attr a ''href'' = None \<or> get_attr a ''href'' = Some []))"
  from bangalore_item_unlinked [OF h, of w url]
  show "\<exists>r. bangalore_item w url item = Inr r
            \<and> map_of r ''title''
                = Some (PyStr (if strip (get_text item) = [] then ''Untitled''
                               else strip (get_text item)))"
    by (simp add: py_or_def)
  from mumbai_item_unlinked [OF h, of w url]
  show "\<exists>r. mumbai_item w url item = Inr r
            \<and> map_of r ''title''
                = Some (PyStr (if strip (get_text item) = [] then ''Untitled''
                               else strip (get_text item)))"
    by (simp add: py_or_def)
next
  fix r assume run: "scrape_bangalore_notifications w tr = (Inr xs, tr1)" and r: "r \<in> set xs"
  from scrape_bangalore_items [OF run] r obtain i
    where "bangalore_item w bangalore_url i = Inr r" by blast
  from bangalore_item_title [OF this]
  show "\<exists>t. map_of r ''title'' = Some (PyStr t) \<and> t \<noteq> []"
    by (simp add: py_or_nonempty)
next
  fix r assume run: "scrape_mumbai_notifications w tr = (Inr zs, tr3)" and r: "r \<in> set zs"
  from scrape_mumbai_items [OF run] r obtain i
    where "mumbai_item w mumbai_url i = Inr r" by blast
  from mumbai_item_title [OF this]
  show "\<exists>t. map_of r ''title'' = Some (PyStr t) \<and> t \<noteq> []"
    by (simp add: py_or_nonempty)
qed

theorem C6_titles_witness:
  "(\<exists>r. bangalore_item (static_world 200) bangalore_url
      (Tag ''li'' [] [Tag ''a'' [(''href'', ''https://example.org/n1.pdf'')]
                        [NavigableString '' Admission notice '']]) = Inr r
         \<and> map_of r ''title'' = Some (PyStr ''Admission notice''))
   \<and> (\<exists>r. mumbai_item (static_world 200) bangalore_url
      (Tag ''li'' [] [Tag ''a'' [(''href'', ''https://example.org/n1.pdf'')]
                        [NavigableString '' Admission notice '']]) = Inr r
         \<and> map_of r ''title'' = Some (PyStr ''Admission notice''))
   \<and> bangalore_item strict_world bangalore_url unsplittable_href = Inl ValueError
   \<and> mumbai_item strict_world bangalore_url unsplittable_href = Inl ValueError
   \<and> (\<exists>r. bangalore_item (static_world 200) bangalore_url link_without_href = Inr r
         \<and> map_of r ''title'' = Some (PyStr ''See here''))
   \<and> (\<exists>r. mumbai_item (static_world 200) bangalore_url link_without_href = Inr r
         \<and> map_of r ''title'' = Some (PyStr ''See here''))
   \<and> scrape_bangalore_notifications (static_world 200) [] =
       (Inr [[(''university'', PyStr ''Bangalore''), (''title'', PyStr ''Admission notice''),
              (''description'', PyNone), (''link'', PyStr ''https://example.org/n1.pdf'')],
             [(''university'', PyStr ''Bangalore''), (''title'', PyStr ''Untitled''),
              (''description'', PyNone), (''link'', PyNone)],
             [(''university'', PyStr ''Bangalore''), (''title'', PyStr ''See here''),
              (''description'', PyNone), (''link'', PyNone)]], [bangalore_url])
   \<and> (\<exists>t. map_of [(''university'', PyStr ''Bangalore''), (''title'', PyStr ''Untitled''),
                   (''description'', PyNone), (''link'', PyNone)] ''title'' = Some (PyStr t)
           \<and> t \<noteq> [])
   \<and> scrape_mumbai_notifications (static_world 200) [] =
       (Inr [[(''university'', PyStr ''Mumbai''), (''title'', PyStr ''Circular''),
              (''link'', PyStr ''https://example.org/c.pdf'')]], [mumbai_url])
   \<and> (\<exists>t. map_of [(''university'', PyStr ''Mumbai''), (''title'', PyStr ''Circular''),
                   (''link'', PyStr ''https://example.org/c.pdf'')] ''title'' = Some (PyStr t)
           \<and> t \<noteq> [])"
proof -
  let ?w = "static_world 200"
  let ?a1 = "Tag ''a'' [(''href'', ''https://example.org/n1.pdf'')]
               [NavigableString '' Admission notice '']"
  let ?li1 = "Tag ''li'' [] [?a1]"
  let ?a2 = "Tag ''a'' [(''name'', ''top'')] [NavigableString ''here'']"
  let ?a3 = "Tag ''a'' [(''href'', ''http://['')] [NavigableString ''Prospectus'']"
  let ?B = "[[(''university'', PyStr ''Bangalore''), (''title'', PyStr ''Admission notice''),
            (''description'', PyNone), (''link'', PyStr ''https://example.org/n1.pdf'')],
           [(''university'', PyStr ''Bangalore''), (''title'', PyStr ''Untitled''),
            (''description'', PyNone), (''link'', PyNone)],
           [(''university'', PyStr ''Bangalore''), (''title'', PyStr ''See here''),
            (''description'', PyNone), (''link'', PyNone)]]"
  let ?M = "[[(''university'', PyStr ''Mumbai''), (''title'', PyStr ''Circular''),
            (''link'', PyStr ''https://example.org/c.pdf'')]]"
  have f: "find_first (named ''a'') (contents ?li1) = Some ?a1
           \<and> get_attr ?a1 ''href'' = Some ''https://example.org/n1.pdf''
           \<and> ''https://example.org/n1.pdf'' \<noteq> []
           \<and> urljoin ?w bangalore_url ''https://example.org/n1.pdf''
               = Some ''https://example.org/n1.pdf''"
    by code_simp
  have f3: "strip (get_text ?a1) = ''Admission notice''" by code_simp
  have u: "find_first (named ''a'') (contents unsplittable_href) = Some ?a3
           \<and> get_attr ?a3 ''href'' = Some ''http://['' \<and> ''http://['' \<noteq> []
           \<and> urljoin strict_world bangalore_url ''http://['' = None"
    by code_simp
  have g: "find_first (named ''a'') (contents link_without_href) = Some ?a2
           \<and> (get_attr ?a2 ''href'' = None \<or> get_attr ?a2 ''href'' = Some [])"
    by code_simp
  have g3: "strip (get_text link_without_href) = ''See here''" by code_simp
  have b: "scrape_bangalore_notifications ?w [] = (Inr ?B, [bangalore_url])" by code_simp
  have m: "scrape_mumbai_notifications ?w [] = (Inr ?M, [mumbai_url])" by code_simp
  note linked = C6_titles [where item = ?li1 and w = ?w and url = bangalore_url
      and tr = "[]" and xs = ?B and ?tr1.0 = "[bangalore_url]" and zs = ?M
      and ?tr3.0 = "[mumbai_url]"]
  note broken = C6_titles [where item = unsplittable_href and w = strict_world
      and url = bangalore_url]
  note unlinked = C6_titles [where item = link_without_href and w = ?w and url = bangalore_url]
  from linked f have
    "(\<exists>r. bangalore_item ?w bangalore_url ?li1 = Inr r
         \<and> map_of r ''title''
             = Some (PyStr (if strip (get_text ?a1) = [] then ''Untitled''
                            else strip (get_text ?a1))))
     \<and> (\<exists>r. mumbai_item ?w bangalore_url ?li1 = Inr r
         \<and> map_of r ''title''
             = Some (PyStr (if strip (get_text ?a1) = [] then ''Untitled''
                            else strip (get_text ?a1))))"
    by blast
  then have c1: "(\<exists>r. bangalore_item ?w bangalore_url ?li1 = Inr r
         \<and> map_of r ''title'' = Some (PyStr ''Admission notice''))
     \<and> (\<exists>r. mumbai_item ?w bangalore_url ?li1 = Inr r
         \<and> map_of r ''title'' = Some (PyStr ''Admission notice''))"
    by (simp only: f3) simp
  from broken u have c0: "bangalore_item strict_world bangalore_url unsplittable_href
                            = Inl ValueError
     \<and> mumbai_item strict_world bangalore_url unsplittable_href = Inl ValueError"
    by blast
  from unlinked g have
    "(\<exists>r. bangalore_item ?w bangalore_url link_without_href = Inr r
         \<and> map_of r ''title''
             = Some (PyStr (if strip (get_text link_without_href) = [] then ''Untitled''
                            else strip (get_text link_without_href))))
     \<and> (\<exists>r. mumbai_item ?w bangalore_url link_without_href = Inr r
         \<and> map_of r ''title''
             = Some (PyStr (if strip (get_text link_without_href) = [] then ''Untitled''
                            else strip (get_text link_without_href))))"
    by blast
  then have c2: "(\<exists>r. bangalore_item ?w bangalore_url link_without_href = Inr r
         \<and> map_of r ''title'' = Some (PyStr ''See here''))
     \<and> (\<exists>r. mumbai_item ?w bangalore_url link_without_href = Inr r
         \<and> map_of r ''title'' = Some (PyStr ''See here''))"
    by (simp only: g3) simp
  from linked b m have c3:
    "(\<forall>r \<in> set ?B. \<exists>t. map_of r ''title'' = Some (PyStr t) \<and> t \<noteq> [])
     \<and> (\<forall>r \<in> set ?M. \<exists>t. map_of r ''title'' = Some (PyStr t) \<and> t \<noteq> [])"
    by blast
  from c3 have c4:
    "(\<exists>t. map_of [(''university'', PyStr ''Bangalore''), (''title'', PyStr ''Untitled''),
                  (''description'', PyNone), (''link'', PyNone)] ''title'' = Some (PyStr t)
          \<and> t \<noteq> [])
     \<and> (\<exists>t. map_of [(''university'', PyStr ''Mumbai''), (''title'', PyStr ''Circular''),
                  (''link'', PyStr ''https://example.org/c.pdf'')] ''title'' = Some (PyStr t)
          \<and> t \<noteq> [])"
    by simp
  from c0 c1 c2 c4 b m show ?thesis by blast
qed

text \<open>
  Claim C7. For every heading found in the \<open>details1_left\<close> block of the Goa page, the
  record produced has that heading's text as its title, and its details are the list of
  the bullet-item texts of the heading's immediately following sibling element if and only
  if that sibling is an unordered list; otherwise the details are the empty list.

  The title is the heading's text as every extractor takes a title: trimmed, with
  \<open>Untitled\<close> in its place when nothing is left. The bullet-item texts are the texts of the
  \<open>li\<close> elements inside the sibling, trimmed as well. The immediately following sibling
  element is the first element after the heading among the nodes of its parent. Details
  that are not empty come from a \<open>ul\<close> sibling only. One record is produced for each
  heading, in document order.
\<close>

theorem C7_goa_records:
  "map_of (goa_item (h4, following)) ''title''
     = Some (PyStr (if strip (get_text h4) = [] then ''Untitled'' else strip (get_text h4)))
   \<and> (\<forall>e. find_next_sibling following = Some e \<and> name e = ''ul'' \<longrightarrow>
         map_of (goa_item (h4, following)) ''details''
           = Some (PyList (map (\<lambda>li. strip (get_text li))
                             (find_all (named ''li'') (contents e)))))
   \<and> ((find_next_sibling following = None
        \<or> (\<exists>e. find_next_sibling following = Some e \<and> name e \<noteq> ''ul'')) \<longrightarrow>
         map_of (goa_item (h4, following)) ''details'' = Some (PyList []))
   \<and> (map_of (goa_item (h4, following)) ''details'' \<noteq> Some (PyList []) \<longrightarrow>
         (\<exists>e. find_next_sibling following = Some e \<and> name e = ''ul''))
   \<and> (\<forall>e. find_next_sibling following = Some e \<longrightarrow>
         (\<exists>skipped later. following = skipped @ e # later \<and> is_tag e
                           \<and> (\<forall>x \<in> set skipped. \<not> is_tag x)))
   \<and> (\<forall>r inside_wrapper details1_left.
         http_get w goa_url = Responded r
         \<and> \<not> (400 \<le> status_code r \<and> status_code r < 600)
         \<and> find_first (\<lambda>e. named ''div'' e \<and> has_class ''details1'' e)
               (html_parser w (content r)) = Some inside_wrapper
         \<and> find_first (\<lambda>e. named ''div'' e \<and> has_class ''details1_left'' e)
               (contents inside_wrapper) = Some details1_left \<longrightarrow>
         scrape_goa_notifications w tr =
           (Inr (map goa_item
                   (filter (\<lambda>located. named ''h4'' (fst located))
                      (walk (contents details1_left)))), tr @ [goa_url])
         \<and> (\<forall>located \<in> set (walk (contents details1_left)).
               (\<exists>before. contents details1_left = before @ fst located # snd located)
               \<or> (\<exists>p before. p \<in> set (descendants (contents details1_left))
                      \<and> contents p = before @ fst located # snd located)))"
proof (intro conjI allI impI ballI)
  show "map_of (goa_item (h4, following)) ''title''
     = Some (PyStr (if strip (get_text h4) = [] then ''Untitled'' else strip (get_text h4)))"
    by (simp add: goa_item_fields py_or_def)
next
  fix e assume "find_next_sibling following = Some e \<and> name e = ''ul''"
  then show "map_of (goa_item (h4, following)) ''details''
           = Some (PyList (map (\<lambda>li. strip (get_text li))
                             (find_all (named ''li'') (contents e))))"
    by (simp add: goa_item_fields)
next
  assume "find_next_sibling following = None
        \<or> (\<exists>e. find_next_sibling following = Some e \<and> name e \<noteq> ''ul'')"
  then show "map_of (goa_item (h4, following)) ''details'' = Some (PyList [])"
    by (auto simp add: goa_item_fields)
next
  assume "map_of (goa_item (h4, following)) ''details'' \<noteq> Some (PyList [])"
  then show "\<exists>e. find_next_sibling following = Some e \<and> name e = ''ul''"
    by (auto simp add: goa_item_fields split: option.splits if_splits)
next
  fix e assume "find_next_sibling following = Some e"
  then show "\<exists>skipped later. following = skipped @ e # later \<and> is_tag e
                           \<and> (\<forall>x \<in> set skipped. \<not> is_tag x)"
    by (rule find_next_sibling_first)
next
  fix r inside_wrapper details1_left
  assume "http_get w goa_url = Responded r
         \<and> \<not> (400 \<le> status_code r \<and> status_code r < 600)
         \<and> find_first (\<lambda>e. named ''div'' e \<and> has_class ''details1'' e)
               (html_parser w (content r)) = Some inside_wrapper
         \<and> find_first (\<lambda>e. named ''div'' e \<and> has_class ''details1_left'' e)
               (contents inside_wrapper) = Some details1_left"
  then show "scrape_goa_notifications w tr =
           (Inr (map goa_item
                   (filter (\<lambda>located. named ''h4'' (fst located))
                      (walk (contents details1_left)))), tr @ [goa_url])"
    by (auto simp add: scrape_goa_answered)
next
  fix r inside_wrapper details1_left located
  assume "located \<in> set (walk (contents details1_left))"
  then have "(fst located, snd located) \<in> set (walk (contents details1_left))" by simp
  then show "(\<exists>before. contents details1_left = before @ fst located # snd located)
               \<or> (\<exists>p before. p \<in> set (descendants (contents details1_left))
                      \<and> contents p = before @ fst located # snd located)"
    by (rule walk_following)
qed


theorem C7_goa_records_witness:
  "map_of (goa_item (Tag ''h4'' [] [NavigableString ''PhD admissions''],
       [NavigableString '' '',
        Tag ''ul'' [] [Tag ''li'' [] [NavigableString '' Apply by May ''],
                       Tag ''li'' [] [NavigableString ''Fee'']],
        Tag ''h4'' [] [], Tag ''p'' [] [NavigableString ''Soon'']])) ''title''
     = Some (PyStr ''PhD admissions'')
   \<and> map_of (goa_item (Tag ''h4'' [] [NavigableString ''PhD admissions''],
       [NavigableString '' '',
        Tag ''ul'' [] [Tag ''li'' [] [NavigableString '' Apply by May ''],
                       Tag ''li'' [] [NavigableString ''Fee'']],
        Tag ''h4'' [] [], Tag ''p'' [] [NavigableString ''Soon'']])) ''details''
     = Some (PyList [''Apply by May'', ''Fee''])
   \<and> map_of (goa_item (Tag ''h4'' [] [], [Tag ''p'' [] [NavigableString ''Soon'']])) ''details''
     = Some (PyList [])
   \<and> map_of (goa_item (Tag ''h4'' [] [], [])) ''details'' = Some (PyList [])
   \<and> map_of (goa_item (Tag ''h4'' [] [], [])) ''title'' = Some (PyStr ''Untitled'')
   \<and> (\<exists>e. find_next_sibling
             [NavigableString '' '',
              Tag ''ul'' [] [Tag ''li'' [] [NavigableString '' Apply by May ''],
                             Tag ''li'' [] [NavigableString ''Fee'']],
              Tag ''h4'' [] [], Tag ''p'' [] [NavigableString ''Soon'']] = Some e
           \<and> name e = ''ul'')
   \<and> scrape_goa_notifications (static_world 200) [] =
       (Inr [[(''university'', PyStr ''Goa''), (''title'', PyStr ''PhD admissions''),
              (''details'', PyList [''Apply by May'', ''Fee''])],
             [(''university'', PyStr ''Goa''), (''title'', PyStr ''Untitled''),
              (''details'', PyList [])]], [goa_url])"
proof -
  let ?w = "static_world 200"
  let ?ul = "Tag ''ul'' [] [Tag ''li'' [] [NavigableString '' Apply by May ''],
                            Tag ''li'' [] [NavigableString ''Fee'']]"
  let ?p = "Tag ''p'' [] [NavigableString ''Soon'']"
  let ?h1 = "Tag ''h4'' [] [NavigableString ''PhD admissions'']"
  let ?h2 = "Tag ''h4'' [] []"
  let ?f1 = "[NavigableString '' '', ?ul, ?h2, ?p]"
  let ?left = "Tag ''div'' [(''class'', ''details1_left'')] (?h1 # ?f1)"
  let ?wrapper = "Tag ''div'' [(''class'', ''details1'')] [?left]"
  have s1: "find_next_sibling ?f1 = Some ?ul \<and> name ?ul = ''ul''" by code_simp
  have s2: "find_next_sibling [?p] = Some ?p \<and> name ?p \<noteq> ''ul''" by code_simp
  have s3: "find_next_sibling [] = None" by code_simp
  have t1: "strip (get_text ?h1) = ''PhD admissions''" by code_simp
  have d1: "map (\<lambda>li. strip (get_text li)) (find_all (named ''li'') (contents ?ul))
              = [''Apply by May'', ''Fee'']" by code_simp
  have page: "http_get ?w goa_url = Responded \<lparr>status_code = 200, content = ''G''\<rparr>
      \<and> \<not> (400 \<le> status_code \<lparr>status_code = 200, content = ''G''\<rparr>
            \<and> status_code \<lparr>status_code = 200, content = ''G''\<rparr> < 600)
      \<and> find_first (\<lambda>e. named ''div'' e \<and> has_class ''details1'' e)
           (html_parser ?w (content \<lparr>status_code = 200, content = ''G''\<rparr>)) = Some ?wrapper
      \<and> find_first (\<lambda>e. named ''div'' e \<and> has_class ''details1_left'' e)
           (contents ?wrapper) = Some ?left"
    by code_simp
  have items: "map goa_item (filter (\<lambda>located. named ''h4'' (fst located))
                 (walk (contents ?left)))
     = [[(''university'', PyStr ''Goa''), (''title'', PyStr ''PhD admissions''),
         (''details'', PyList [''Apply by May'', ''Fee''])],
        [(''university'', PyStr ''Goa''), (''title'', PyStr ''Untitled''),
         (''details'', PyList [])]]"
    by code_simp
  note first = C7_goa_records [where ?h4.0 = ?h1 and following = ?f1 and w = ?w and tr = "[]"]
  note second = C7_goa_records [where ?h4.0 = ?h2 and following = "[?p]" and w = ?w
      and tr = "[]"]
  note third = C7_goa_records [where ?h4.0 = ?h2 and following = "[]" and w = ?w and tr = "[]"]
  from first have "map_of (goa_item (?h1, ?f1)) ''title''
     = Some (PyStr (if strip (get_text ?h1) = [] then ''Untitled'' else strip (get_text ?h1)))"
    by blast
  then have c1: "map_of (goa_item (?h1, ?f1)) ''title'' = Some (PyStr ''PhD admissions'')"
    by (simp only: t1) simp
  from first s1 have "map_of (goa_item (?h1, ?f1)) ''details''
     = Some (PyList (map (\<lambda>li. strip (get_text li)) (find_all (named ''li'') (contents ?ul))))"
    by blast
  then have c2: "map_of (goa_item (?h1, ?f1)) ''details''
                   = Some (PyList [''Apply by May'', ''Fee''])"
    by (simp only: d1)
  from second s2 have c3: "map_of (goa_item (?h2, [?p])) ''details'' = Some (PyList [])"
    by blast
  from third s3 have c4: "map_of (goa_item (?h2, [])) ''details'' = Some (PyList [])"
    by blast
  from first page have "scrape_goa_notifications ?w [] =
           (Inr (map goa_item
                   (filter (\<lambda>located. named ''h4'' (fst located))
                      (walk (contents ?left)))), [] @ [goa_url])"
    by blast
  then have c5: "scrape_goa_notifications ?w [] =
       (Inr [[(''university'', PyStr ''Goa''), (''title'', PyStr ''PhD admissions''),
              (''details'', PyList [''Apply by May'', ''Fee''])],
             [(''university'', PyStr ''Goa''), (''title'', PyStr ''Untitled''),
              (''details'', PyList [])]], [goa_url])"
    by (simp only: items append_Nil)
  have t3: "strip (get_text ?h2) = []" by code_simp
  from third have "map_of (goa_item (?h2, [])) ''title''
     = Some (PyStr (if strip (get_text ?h2) = [] then ''Untitled'' else strip (get_text ?h2)))"
    by blast
  then have c6: "map_of (goa_item (?h2, [])) ''title'' = Some (PyStr ''Untitled'')"
    by (simp only: t3) simp
  from c2 have "map_of (goa_item (?h1, ?f1)) ''details'' \<noteq> Some (PyList [])" by simp
  with first have c7: "\<exists>e. find_next_sibling ?f1 = Some e \<and> name e = ''ul''" by blast
  from c1 c2 c3 c4 c5 c6 c7 show ?thesis by blast
qed


end
